theory Spec2Isabelle
  imports Complex_Main "HOL-Library.Log_Nat"
begin

section \<open>Python floats\<close>

text \<open>
  The services compute with Python \<open>float\<close>, an IEEE 754 binary64 number. A finite float
  is modelled by the real number it denotes, and every operation of the source is the exact
  operation followed by the rounding of the hardware: round to nearest, ties to even, to a
  53-bit significand, with the fixed spacing \<open>2 powi (- 1074)\<close> below \<open>2 powi (- 1022)\<close>
  (subnormal numbers). Infinities, NaN and overflow past the largest finite float are not
  represented; all arithmetic of the projection functions on arguments up to \<open>1\<close> stays
  far below that bound. The two zeros are identified, as Python's \<open>==\<close> does.
\<close>

text \<open>Rounding a real to the nearest integer, a tie going to the even neighbour.\<close>

definition rhe :: "real \<Rightarrow> int" where
  "rhe x = (let f = \<lfloor>x\<rfloor>; d = x - of_int f in
     if d < 1/2 then f else if 1/2 < d then f + 1 else if even f then f else f + 1)"

text \<open>
  The binary exponent \<open>e\<close> of a non-zero \<open>x\<close>, that is \<open>2 powi e \<le> \<bar>x\<bar> < 2 powi (e + 1)\<close>,
  computed from the bit length of an integer part.
\<close>

definition binade :: "real \<Rightarrow> int" where
  "binade x = (let a = \<bar>x\<bar> in
     if 1 \<le> a then bitlen \<lfloor>a\<rfloor> - 1 else - bitlen (\<lceil>1 / a\<rceil> - 1))"

text \<open>The exponent of the spacing of floats around \<open>x\<close>.\<close>

definition ulp_exp :: "real \<Rightarrow> int" where
  "ulp_exp x = max (binade x) (- 1022) - 52"

text \<open>The float nearest to a real.\<close>

definition fl :: "real \<Rightarrow> real" where
  "fl x = (if x = 0 then 0 else of_int (rhe (x / 2 powi ulp_exp x)) * 2 powi ulp_exp x)"

text \<open>
  A decimal literal of the source: \<open>lit 115 2\<close> is the float that Python reads for \<open>1.15\<close>,
  the one nearest to \<open>115 / 10 ^ 2\<close>.
\<close>

definition lit :: "int \<Rightarrow> nat \<Rightarrow> real" where
  "lit m k = fl (of_int m / 10 ^ k)"

text \<open>Python's \<open>x * y\<close> on floats.\<close>

definition fmul :: "real \<Rightarrow> real \<Rightarrow> real" where
  "fmul x y = fl (x * y)"

text \<open>
  Python's \<open>round(x, ndigits)\<close> for a float and \<open>ndigits \<ge> 0\<close>: CPython prints the exact
  value of \<open>x\<close> correctly rounded (ties to even) to \<open>ndigits\<close> decimal places and reads the
  decimal string back as a float.
\<close>

definition py_round :: "real \<Rightarrow> nat \<Rightarrow> real" where
  "py_round x ndigits = fl (of_int (rhe (x * 10 ^ ndigits)) / 10 ^ ndigits)"

text \<open>The largest finite float.\<close>

definition max_double :: real where
  "max_double = (2 ^ 53 - 1) * 2 ^ 971"

section \<open>The projection functions\<close>

text \<open>
  \<open>finallayer3.py\<close>, \<open>predict_epss_30d\<close>: the banded growth table, clamped at \<open>1.0\<close> and
  rounded to five places. Python's \<open>min(1.0, x)\<close> is \<open>min 1 x\<close>.
\<close>

definition predict_epss_30d :: "real \<Rightarrow> real" where
  "predict_epss_30d current =
     (let growth =
        (if current < lit 5 3 then lit 130 2
         else if current < lit 2 2 then lit 115 2
         else if current < lit 10 2 then lit 105 2
         else lit 97 2)
      in py_round (min 1 (fmul current growth)) 5)"

text \<open>\<open>fastapi(1).py\<close>, \<open>predict_epss_30d\<close>: another table, the same clamp.\<close>

definition predict_epss_30d_fastapi1 :: "real \<Rightarrow> real" where
  "predict_epss_30d_fastapi1 cur =
     (let growth =
        (if cur < lit 1 2 then lit 150 2
         else if cur < lit 5 2 then lit 130 2
         else if cur < lit 20 2 then lit 115 2
         else if cur < lit 50 2 then lit 108 2
         else lit 103 2)
      in py_round (min 1 (fmul cur growth)) 5)"

text \<open>\<open>fastapi(2).py\<close>, \<open>epss_predict\<close>: one multiplier and no clamp.\<close>

definition epss_predict :: "real \<Rightarrow> real" where
  "epss_predict current = py_round (fmul current (lit 115 2)) 5"

section \<open>Values, errors and the outside world\<close>

text \<open>
  The exceptions the modelled code can raise. Each of them derives from Python's
  \<open>Exception\<close>, so an \<open>except Exception\<close> clause catches every one of them.
  \<open>RequestException\<close> stands for a failed connection or a timeout of \<open>requests\<close>,
  \<open>ValidationError\<close> for a record rejected by pydantic, \<open>OSError\<close> for a file that cannot
  be written.
\<close>

datatype py_error =
    RequestException | HTTPError | JSONDecodeError | AttributeError | KeyError
  | IndexError | TypeError | ValueError | OverflowError | RuntimeError | ValidationError
  | OSError

text \<open>
  A Python string is the list of the bytes of its UTF-8 encoding: equality, concatenation
  and the search for an ASCII text are the same on the bytes as on the characters.

  A decoded JSON document, as \<open>response.json()\<close> and \<open>json.loads\<close> return it. An object is
  an association list with distinct keys; a key is looked up with \<open>map_of\<close>.
\<close>

datatype json =
    JNull | JBool bool | JInt int | JFloat real | JStr string
  | JArr "json list" | JObj "(string \<times> json) list"

text \<open>
  What one HTTP request comes to: no response at all, or a status code and a body, which
  is \<open>None\<close> when it is not JSON.
\<close>

datatype http_result = Unreachable | Reply nat "json option"

text \<open>Sequencing of steps that may raise.\<close>

definition bindE :: "'e + 'a \<Rightarrow> ('a \<Rightarrow> 'e + 'b) \<Rightarrow> 'e + 'b" where
  "bindE m f = (case m of Inl e \<Rightarrow> Inl e | Inr x \<Rightarrow> f x)"

text \<open>\<open>response.raise_for_status()\<close> and \<open>response.json()\<close>.\<close>

definition raise_for_status :: "nat \<Rightarrow> py_error + unit" where
  "raise_for_status status = (if 400 \<le> status \<and> status < 600 then Inl HTTPError else Inr ())"

definition response_json :: "json option \<Rightarrow> py_error + json" where
  "response_json body = (case body of None \<Rightarrow> Inl JSONDecodeError | Some j \<Rightarrow> Inr j)"

text \<open>Python's truth value of a decoded document (\<open>if data\<close>, \<open>if not data\<close>).\<close>

fun truthy :: "json \<Rightarrow> bool" where
  "truthy JNull = False"
| "truthy (JBool b) = b"
| "truthy (JInt i) = (i \<noteq> 0)"
| "truthy (JFloat x) = (x \<noteq> 0)"
| "truthy (JStr s) = (s \<noteq> [])"
| "truthy (JArr xs) = (xs \<noteq> [])"
| "truthy (JObj kvs) = (kvs \<noteq> [])"

text \<open>\<open>obj.get(key, default)\<close>: only a dict has the method.\<close>

fun dict_get :: "json \<Rightarrow> string \<Rightarrow> json \<Rightarrow> py_error + json" where
  "dict_get (JObj kvs) k d = Inr (case map_of kvs k of None \<Rightarrow> d | Some v \<Rightarrow> v)"
| "dict_get _ k d = Inl AttributeError"

text \<open>\<open>obj[key]\<close> with a string key, and \<open>obj[0]\<close>; the first character of a string is
  as many bytes as its first byte announces.\<close>

fun getitem :: "json \<Rightarrow> string \<Rightarrow> py_error + json" where
  "getitem (JObj kvs) k = (case map_of kvs k of None \<Rightarrow> Inl KeyError | Some v \<Rightarrow> Inr v)"
| "getitem _ k = Inl TypeError"

definition utf8_width :: "char \<Rightarrow> nat" where
  "utf8_width c =
     (let n = (of_char c :: nat)
      in if n < 128 then 1 else if n < 224 then 2 else if n < 240 then 3 else 4)"

fun getitem0 :: "json \<Rightarrow> py_error + json" where
  "getitem0 (JArr []) = Inl IndexError"
| "getitem0 (JArr (x # xs)) = Inr x"
| "getitem0 (JStr []) = Inl IndexError"
| "getitem0 (JStr (c # cs)) = Inr (JStr (take (utf8_width c) (c # cs)))"
| "getitem0 (JObj kvs) = Inl KeyError"
| "getitem0 _ = Inl TypeError"

text \<open>
  \<open>float(v)\<close>. The parser of numeric strings is a parameter (\<open>None\<close> when Python raises
  \<open>ValueError\<close>).
\<close>

fun py_float :: "(string \<Rightarrow> real option) \<Rightarrow> json \<Rightarrow> py_error + real" where
  "py_float parse (JFloat x) = Inr x"
| "py_float parse (JInt i) =
     (if max_double < \<bar>fl (of_int i)\<bar> then Inl OverflowError else Inr (fl (of_int i)))"
| "py_float parse (JBool b) = Inr (if b then 1 else 0)"
| "py_float parse (JStr s) = (case parse s of None \<Rightarrow> Inl ValueError | Some x \<Rightarrow> Inr x)"
| "py_float parse _ = Inl TypeError"

text \<open>
  Everything a request depends on outside the code:
  \<^item> the value of the environment variable that holds the completion credential (\<open>None\<close>
    when it is unset);
  \<^item> the answer of the EPSS service for an identifier, and the answer of the completion
    service to the one request an analysis sends;
  \<^item> the two library parsers, \<open>float\<close> on a string and \<open>json.loads\<close>;
  \<^item> the Unicode tables of the library: \<open>str.upper\<close>, \<open>str.lower\<close>, and \<open>match_digit\<close>, which
    for a text that starts with a decimal digit (what \<open>\d\<close> matches, in any script) gives
    the text after that digit;
  \<^item> the plotting library: whether drawing and saving a chart raises (\<open>None\<close> when it
    does not), and the two values of \<open>uuid.uuid4().hex\<close> that name the image files.
\<close>

record world =
  credential :: "string option"
  epss_service :: "string \<Rightarrow> http_result"
  completion_service :: http_result
  float_of_str :: "string \<Rightarrow> real option"
  json_loads :: "string \<Rightarrow> json option"
  str_upper :: "string \<Rightarrow> string"
  str_lower :: "string \<Rightarrow> string"
  match_digit :: "string \<Rightarrow> string option"
  draw_cvss :: "real \<Rightarrow> string \<Rightarrow> py_error option"
  draw_epss :: "real \<Rightarrow> real \<Rightarrow> string \<Rightarrow> py_error option"
  uuid_cvss :: string
  uuid_epss :: string

section \<open>The charts\<close>

text \<open>\<open>fastapi(2).py\<close>, \<open>cvss_image\<close> and \<open>epss_image\<close>: the file name is made, the chart is drawn
  and saved, which may raise, and the address of the image is returned.\<close>

definition cvss_image :: "world \<Rightarrow> real \<Rightarrow> string \<Rightarrow> py_error + string" where
  "cvss_image w score cve_id =
     (let name = ''cvss_'' @ uuid_cvss w @ ''.png''
      in case draw_cvss w score cve_id of
           Some e \<Rightarrow> Inl e
         | None \<Rightarrow> Inr (''/static/images/'' @ name))"

definition epss_image :: "world \<Rightarrow> real \<Rightarrow> real \<Rightarrow> string \<Rightarrow> py_error + string" where
  "epss_image w current predicted cve_id =
     (let name = ''epss_'' @ uuid_epss w @ ''.png''
      in case draw_epss w current predicted cve_id of
           Some e \<Rightarrow> Inl e
         | None \<Rightarrow> Inr (''/static/images/'' @ name))"

section \<open>Fetching the current score\<close>

text \<open>\<open>finallayer3.py\<close>, \<open>fetch_epss\<close>: no handler, and an explicit \<open>RuntimeError\<close>.\<close>

definition fetch_epss :: "world \<Rightarrow> string \<Rightarrow> py_error + real" where
  "fetch_epss w cve_id =
     (case epss_service w cve_id of
        Unreachable \<Rightarrow> Inl RequestException
      | Reply status body \<Rightarrow>
          bindE (raise_for_status status) (\<lambda>_.
          bindE (response_json body) (\<lambda>data.
          bindE (dict_get data ''data'' JNull) (\<lambda>d.
          if \<not> truthy d then Inl RuntimeError
          else bindE (getitem data ''data'') (\<lambda>d1.
               bindE (getitem0 d1) (\<lambda>d2.
               bindE (getitem d2 ''epss'') (py_float (float_of_str w))))))))"

text \<open>\<open>fastapi(1).py\<close>, \<open>fetch_epss\<close>: the body of the \<open>try\<close>, then the handler.\<close>

definition fetch_epss_fastapi1_try :: "world \<Rightarrow> string \<Rightarrow> py_error + real" where
  "fetch_epss_fastapi1_try w cve_id =
     (case epss_service w cve_id of
        Unreachable \<Rightarrow> Inl RequestException
      | Reply status body \<Rightarrow>
          bindE (raise_for_status status) (\<lambda>_.
          bindE (response_json body) (\<lambda>data.
          bindE (dict_get data ''data'' JNull) (\<lambda>d.
          if \<not> truthy d then Inr 0
          else bindE (getitem data ''data'') (\<lambda>d1.
               bindE (getitem0 d1) (\<lambda>d2.
               bindE (getitem d2 ''epss'') (py_float (float_of_str w))))))))"

definition fetch_epss_fastapi1 :: "world \<Rightarrow> string \<Rightarrow> py_error + real" where
  "fetch_epss_fastapi1 w cve_id =
     (case fetch_epss_fastapi1_try w cve_id of Inl e \<Rightarrow> Inr 0 | Inr v \<Rightarrow> Inr v)"

text \<open>\<open>fastapi(2).py\<close>, \<open>epss_live\<close>.\<close>

definition epss_live_try :: "world \<Rightarrow> string \<Rightarrow> py_error + real" where
  "epss_live_try w cve_id =
     (case epss_service w cve_id of
        Unreachable \<Rightarrow> Inl RequestException
      | Reply status body \<Rightarrow>
          bindE (raise_for_status status) (\<lambda>_.
          bindE (response_json body) (\<lambda>j.
          bindE (dict_get j ''data'' (JArr [])) (\<lambda>data.
          if truthy data
          then bindE (getitem0 data) (\<lambda>d0.
               bindE (getitem d0 ''epss'') (py_float (float_of_str w)))
          else Inr 0))))"

definition epss_live :: "world \<Rightarrow> string \<Rightarrow> py_error + real" where
  "epss_live w cve_id =
     (case epss_live_try w cve_id of Inl e \<Rightarrow> Inr 0 | Inr v \<Rightarrow> Inr v)"

section \<open>Strings\<close>

text \<open>\<open>sub in s\<close>.\<close>

fun str_contains :: "string \<Rightarrow> string \<Rightarrow> bool" where
  "str_contains sub [] = (sub = [])"
| "str_contains sub (c # cs) = (take (length sub) (c # cs) = sub \<or> str_contains sub cs)"

text \<open>
  The pattern \<^verbatim>\<open>^CVE-\d{4}-\d{4,10}$\<close> of \<open>fastapi(1).py\<close>, over the matcher \<open>digit\<close> of one
  decimal digit: exactly \<open>n\<close> digits, at most \<open>n\<close> digits up to the end of the text, and
  the whole pattern.
\<close>

fun take_digits :: "(string \<Rightarrow> string option) \<Rightarrow> nat \<Rightarrow> string \<Rightarrow> string option" where
  "take_digits digit 0 s = Some s"
| "take_digits digit (Suc n) s =
     (case digit s of None \<Rightarrow> None | Some rest \<Rightarrow> take_digits digit n rest)"

fun digits_to_end :: "(string \<Rightarrow> string option) \<Rightarrow> nat \<Rightarrow> string \<Rightarrow> bool" where
  "digits_to_end digit 0 s = (s = [])"
| "digits_to_end digit (Suc n) s =
     (s = [] \<or> (case digit s of None \<Rightarrow> False | Some rest \<Rightarrow> digits_to_end digit n rest))"

definition matches_cve_pattern :: "(string \<Rightarrow> string option) \<Rightarrow> string \<Rightarrow> bool" where
  "matches_cve_pattern digit s =
     (take 4 s = ''CVE-'' \<and>
      (case take_digits digit 4 (drop 4 s) of
         None \<Rightarrow> False
       | Some rest \<Rightarrow>
           take 1 rest = ''-'' \<and>
           (case take_digits digit 4 (drop 1 rest) of
              None \<Rightarrow> False
            | Some tail \<Rightarrow> digits_to_end digit 6 tail)))"

text \<open>
  The library tables on ASCII text, where they are elementary: \<open>str.upper\<close> and
  \<open>str.lower\<close> map the twenty-six letters and keep every other ASCII character, and the
  only decimal digits are \<open>0\<close> to \<open>9\<close>. The concrete worlds below, whose texts are ASCII,
  use them.
\<close>

definition upper_char :: "char \<Rightarrow> char" where
  "upper_char c =
     (case map_of (zip ''abcdefghijklmnopqrstuvwxyz'' ''ABCDEFGHIJKLMNOPQRSTUVWXYZ'') c of
        None \<Rightarrow> c | Some d \<Rightarrow> d)"

definition lower_char :: "char \<Rightarrow> char" where
  "lower_char c =
     (case map_of (zip ''ABCDEFGHIJKLMNOPQRSTUVWXYZ'' ''abcdefghijklmnopqrstuvwxyz'') c of
        None \<Rightarrow> c | Some d \<Rightarrow> d)"

definition ascii_upper :: "string \<Rightarrow> string" where
  "ascii_upper s = map upper_char s"

definition ascii_lower :: "string \<Rightarrow> string" where
  "ascii_lower s = map lower_char s"

definition ascii_digit :: "string \<Rightarrow> string option" where
  "ascii_digit s =
     (case s of
        [] \<Rightarrow> None
      | c # cs \<Rightarrow> if c \<in> set ''0123456789'' then Some cs else None)"

text \<open>\<^verbatim>\<open>re.search(r"\{.*\}", content, re.DOTALL)\<close>: from the first opening brace to the last
  closing brace after it.\<close>

definition re_search_braces :: "string \<Rightarrow> string option" where
  "re_search_braces content =
     (let from_open = dropWhile (\<lambda>c. c \<noteq> CHR ''{'') content;
          to_close = rev (dropWhile (\<lambda>c. c \<noteq> CHR ''}'') (rev from_open))
      in if to_close = [] then None else Some to_close)"

section \<open>Records and their validation\<close>

text \<open>
  The request model of \<open>fastapi(1).py\<close>, the response model of \<open>fastapi(2).py\<close> and the
  request model of \<open>fastapi(2).py\<close>. The field \<open>fixes\<close> of the response is \<open>fixes_list\<close>
  here. A record is given with fields of the declared types; what the validators add is
  the constraints.
\<close>

record CVEInput_fastapi1 =
  cve_id :: string
  cvss_vector :: string
  severity :: string
  cvss_score :: real
  affected_assets :: "string list"

record CVEAnalysisResponse =
  cve_id :: string
  cvss_vector :: "string option"
  severity :: string
  cvss_score :: real
  simple_summary :: string
  simple_description :: string
  affected_products :: "string list"
  affected_assets :: "string list"
  fixes_list :: "string list"
  epss_score :: real
  epss_30d_prediction :: real
  cvss_heatmap_url :: string
  epss_plot_url :: string

record CVEInput =
  cve_id :: string
  cvss_vector :: "string option"
  severity :: string
  cvss_score :: real
  summary :: string
  description :: string

text \<open>\<open>fastapi(1).py\<close>, \<open>CVEInput\<close>: a pattern on the identifier, bounds on the score, and
  no constraint on the severity.\<close>

definition validate_CVEInput_fastapi1 ::
  "world \<Rightarrow> CVEInput_fastapi1 \<Rightarrow> py_error + CVEInput_fastapi1" where
  "validate_CVEInput_fastapi1 w r =
     (if \<not> matches_cve_pattern (match_digit w) (CVEInput_fastapi1.cve_id r)
      then Inl ValidationError
      else if \<not> (0 \<le> CVEInput_fastapi1.cvss_score r \<and> CVEInput_fastapi1.cvss_score r \<le> 10)
      then Inl ValidationError
      else Inr r)"

text \<open>\<open>fastapi(2).py\<close>, \<open>CVEInput\<close>: the validator of the severity, which stores the
  upper-cased value, bounds on the score, and no constraint on the identifier.\<close>

definition validate_severity :: "world \<Rightarrow> string \<Rightarrow> py_error + string" where
  "validate_severity w v =
     (let v' = str_upper w v
      in if v' \<notin> set [''CRITICAL'', ''HIGH'', ''MEDIUM'', ''LOW'', ''NONE'']
         then Inl ValueError else Inr v')"

definition validate_CVEInput :: "world \<Rightarrow> CVEInput \<Rightarrow> py_error + CVEInput" where
  "validate_CVEInput w r =
     (case validate_severity w (CVEInput.severity r) of
        Inl e \<Rightarrow> Inl ValidationError
      | Inr v \<Rightarrow>
          if \<not> (0 \<le> CVEInput.cvss_score r \<and> CVEInput.cvss_score r \<le> 10)
          then Inl ValidationError
          else Inr (r\<lparr>CVEInput.severity := v\<rparr>))"

text \<open>Validation of the fields of the response that come from the analysis: a string, and
  a list of strings.\<close>

definition validate_str :: "json \<Rightarrow> py_error + string" where
  "validate_str j = (case j of JStr s \<Rightarrow> Inr s | _ \<Rightarrow> Inl ValidationError)"

fun str_items :: "json list \<Rightarrow> string list option" where
  "str_items [] = Some []"
| "str_items (JStr s # xs) = (case str_items xs of None \<Rightarrow> None | Some ss \<Rightarrow> Some (s # ss))"
| "str_items (_ # xs) = None"

definition validate_str_list :: "json \<Rightarrow> py_error + string list" where
  "validate_str_list j =
     (case j of
        JArr xs \<Rightarrow> (case str_items xs of None \<Rightarrow> Inl ValidationError | Some ss \<Rightarrow> Inr ss)
      | _ \<Rightarrow> Inl ValidationError)"

section \<open>The credential\<close>

text \<open>\<open>api.py\<close>, at import: \<open>API_KEY = os.getenv(...)\<close>, and \<open>ValueError\<close> when it is
  missing or empty.\<close>

definition load_API_KEY :: "string option \<Rightarrow> py_error + string" where
  "load_API_KEY env_value =
     (case env_value of
        None \<Rightarrow> Inl ValueError
      | Some k \<Rightarrow> if k = [] then Inl ValueError else Inr k)"

text \<open>\<open>fastapi(2).py\<close>, at import: \<open>os.getenv(..., "")\<close>, the empty string when the variable
  is unset. The field \<open>credential\<close> of the world is the value of the variable that the call
  names.\<close>

definition OPENROUTER_API_KEY :: "world \<Rightarrow> string" where
  "OPENROUTER_API_KEY w = (case credential w of None \<Rightarrow> [] | Some k \<Rightarrow> k)"

section \<open>The analysis\<close>

text \<open>\<open>fastapi(2).py\<close>, \<open>ai_analyze\<close>. The argument is \<open>cve.model_dump()\<close>, a dict with the
  fields of the request; the record stands for it.\<close>

definition fallback_products :: "world \<Rightarrow> CVEInput \<Rightarrow> string list" where
  "fallback_products w cve =
     (let p1 = (if str_contains ''ssh'' (str_lower w (summary cve)) then [''OpenSSH''] else []);
          p2 = p1 @ (if str_contains ''linux'' (str_lower w (description cve))
                     then [''Linux systems''] else [])
      in if p2 = [] then p2 @ [''Affected software components''] else p2)"

definition fallback_assets :: "string list" where
  "fallback_assets = [''Servers'', ''Production systems'', ''Internet-facing hosts'']"

definition fallback_fixes :: "string list" where
  "fallback_fixes =
     [''Apply vendor security patches'', ''Upgrade to the latest stable version'',
      ''Restrict network access'', ''Monitor logs for exploitation attempts'']"

definition fallback_bundle :: "world \<Rightarrow> CVEInput \<Rightarrow> json" where
  "fallback_bundle w cve =
     JObj [(''simple_summary'', JStr (summary cve)),
           (''simple_description'', JStr (description cve)),
           (''affected_products'', JArr (map JStr (fallback_products w cve))),
           (''affected_assets'', JArr (map JStr fallback_assets)),
           (''fixes'', JArr (map JStr fallback_fixes))]"

text \<open>\<open>json.loads(content)\<close>: a \<open>TypeError\<close> unless the argument is a string.\<close>

definition py_json_loads :: "world \<Rightarrow> json \<Rightarrow> py_error + json" where
  "py_json_loads w content =
     (case content of
        JStr s \<Rightarrow> (case json_loads w s of None \<Rightarrow> Inl JSONDecodeError | Some j \<Rightarrow> Inr j)
      | _ \<Rightarrow> Inl TypeError)"

text \<open>The request to the completion service, up to
  \<^verbatim>\<open>r.json()["choices"][0]["message"]["content"]\<close>.\<close>

definition completion_content :: "world \<Rightarrow> py_error + json" where
  "completion_content w =
     (case completion_service w of
        Unreachable \<Rightarrow> Inl RequestException
      | Reply status body \<Rightarrow>
          bindE (raise_for_status status) (\<lambda>_.
          bindE (response_json body) (\<lambda>j.
          bindE (getitem j ''choices'') (\<lambda>c.
          bindE (getitem0 c) (\<lambda>c0.
          bindE (getitem c0 ''message'') (\<lambda>m.
          getitem m ''content''))))))"

definition ai_analyze_try :: "world \<Rightarrow> py_error + json" where
  "ai_analyze_try w = bindE (completion_content w) (py_json_loads w)"

definition ai_analyze :: "world \<Rightarrow> CVEInput \<Rightarrow> json" where
  "ai_analyze w cve =
     (if OPENROUTER_API_KEY w = [] then fallback_bundle w cve
      else case ai_analyze_try w of
             Inl e \<Rightarrow> fallback_bundle w cve
           | Inr j \<Rightarrow> j)"

text \<open>\<open>fastapi(1).py\<close>, \<open>ai_generate_analysis\<close>; its credential is a constant of the file.\<close>

definition ai_generate_analysis_try :: "world \<Rightarrow> py_error + json" where
  "ai_generate_analysis_try w =
     bindE (completion_content w) (\<lambda>content.
       case content of
         JStr s \<Rightarrow> (case re_search_braces s of
                      None \<Rightarrow> Inr (JObj [])
                    | Some m \<Rightarrow> py_json_loads w (JStr m))
       | _ \<Rightarrow> Inl TypeError)"

definition ai_generate_analysis :: "world \<Rightarrow> CVEInput_fastapi1 \<Rightarrow> json" where
  "ai_generate_analysis w cve =
     (case ai_generate_analysis_try w of
        Inl e \<Rightarrow> JObj [(''simple_summary'', JStr ''AI analysis unavailable''),
                       (''simple_description'', JStr ''Failed to generate AI analysis''),
                       (''affected_products'', JArr []),
                       (''fixes'', JArr [])]
      | Inr j \<Rightarrow> j)"

text \<open>\<open>fastapi(2).py\<close>, \<open>analyze\<close>: the analysis, the score, the projection, the five
  subscripts of the analysis in the order of the keyword arguments, the two charts, each
  of which may raise, and the validation of the response model.\<close>

definition analyze :: "world \<Rightarrow> CVEInput \<Rightarrow> py_error + CVEAnalysisResponse" where
  "analyze w cve =
     (let ai = ai_analyze w cve in
      bindE (epss_live w (CVEInput.cve_id cve)) (\<lambda>epss_now.
      let epss_30 = epss_predict epss_now in
      bindE (getitem ai ''simple_summary'') (\<lambda>a1.
      bindE (getitem ai ''simple_description'') (\<lambda>a2.
      bindE (getitem ai ''affected_products'') (\<lambda>a3.
      bindE (getitem ai ''affected_assets'') (\<lambda>a4.
      bindE (getitem ai ''fixes'') (\<lambda>a5.
      bindE (cvss_image w (CVEInput.cvss_score cve) (CVEInput.cve_id cve)) (\<lambda>heat.
      bindE (epss_image w epss_now epss_30 (CVEInput.cve_id cve)) (\<lambda>plot.
      bindE (validate_str a1) (\<lambda>s1.
      bindE (validate_str a2) (\<lambda>s2.
      bindE (validate_str_list a3) (\<lambda>l3.
      bindE (validate_str_list a4) (\<lambda>l4.
      bindE (validate_str_list a5) (\<lambda>l5.
      Inr \<lparr>CVEAnalysisResponse.cve_id = CVEInput.cve_id cve,
           cvss_vector = CVEInput.cvss_vector cve,
           severity = CVEInput.severity cve, cvss_score = CVEInput.cvss_score cve,
           simple_summary = s1, simple_description = s2,
           affected_products = l3, affected_assets = l4, fixes_list = l5,
           epss_score = epss_now, epss_30d_prediction = epss_30,
           cvss_heatmap_url = heat, epss_plot_url = plot\<rparr>))))))))))))))"

text \<open>The endpoint \<open>POST /analyze\<close>: the body is validated, then \<open>analyze\<close> runs.\<close>

definition post_analyze :: "world \<Rightarrow> CVEInput \<Rightarrow> py_error + CVEAnalysisResponse" where
  "post_analyze w body = bindE (validate_CVEInput w body) (analyze w)"

section \<open>Concrete worlds and records\<close>

text \<open>Parsers and plotting outcomes used by the examples. The last one is a plotting
  library that fails on the title of the identifier \<^verbatim>\<open>$$\<close>, which it reads as the
  delimiters of an empty formula.\<close>

definition no_float :: "string \<Rightarrow> real option" where
  "no_float s = None"

definition no_json :: "string \<Rightarrow> json option" where
  "no_json s = None"

definition float_0_02 :: "string \<Rightarrow> real option" where
  "float_0_02 s = (if s = ''0.02'' then Some (lit 2 2) else None)"

definition loads_empty_object :: "string \<Rightarrow> json option" where
  "loads_empty_object s = (if s = ''{}'' then Some (JObj []) else None)"

definition cvss_drawn :: "real \<Rightarrow> string \<Rightarrow> py_error option" where
  "cvss_drawn score ident = None"

definition epss_drawn :: "real \<Rightarrow> real \<Rightarrow> string \<Rightarrow> py_error option" where
  "epss_drawn current predicted ident = None"

definition cvss_title_fails :: "real \<Rightarrow> string \<Rightarrow> py_error option" where
  "cvss_title_fails score ident = (if ident = ''$$'' then Some ValueError else None)"

text \<open>An EPSS service that cannot be reached, one that answers with status 503, one that
  answers with a body that is not JSON, one that knows no score, and one that reports
  \<open>0.02\<close>.\<close>

definition service_down :: "string \<Rightarrow> http_result" where
  "service_down ident = Unreachable"

definition service_unavailable :: "string \<Rightarrow> http_result" where
  "service_unavailable ident = Reply 503 None"

definition service_not_json :: "string \<Rightarrow> http_result" where
  "service_not_json ident = Reply 200 None"

definition service_no_data :: "string \<Rightarrow> http_result" where
  "service_no_data ident = Reply 200 (Some (JObj [(''status'', JStr ''OK''), (''data'', JArr [])]))"

definition service_0_02 :: "string \<Rightarrow> http_result" where
  "service_0_02 ident =
     Reply 200 (Some (JObj [(''status'', JStr ''OK''),
                            (''data'', JArr [JObj [(''cve'', JStr ident), (''epss'', JStr ''0.02'')]])]))"

text \<open>No credential and nothing reachable.\<close>

definition world_down :: world where
  "world_down = \<lparr>credential = None, epss_service = service_down, completion_service = Unreachable,
     float_of_str = no_float, json_loads = no_json,
     str_upper = ascii_upper, str_lower = ascii_lower, match_digit = ascii_digit,
     draw_cvss = cvss_drawn, draw_epss = epss_drawn,
     uuid_cvss = ''0f8fad5bd9cb469fa16570867728950e'',
     uuid_epss = ''7c9e6679742540de944be07fc1f90ae7''\<rparr>"

definition world_unavailable :: world where
  "world_unavailable = world_down\<lparr>epss_service := service_unavailable\<rparr>"

definition world_not_json :: world where
  "world_not_json = world_down\<lparr>epss_service := service_not_json\<rparr>"

definition world_no_data :: world where
  "world_no_data = world_down\<lparr>epss_service := service_no_data\<rparr>"

definition world_empty_credential :: world where
  "world_empty_credential = world_down\<lparr>credential := Some []\<rparr>"

text \<open>The end-to-end scenario: no credential, the score service reports \<open>0.02\<close>; and the
  same with a credential and a completion service that cannot be reached.\<close>

definition world_e2e :: world where
  "world_e2e = world_down\<lparr>epss_service := service_0_02, float_of_str := float_0_02\<rparr>"

definition world_e2e_keyed :: world where
  "world_e2e_keyed = world_e2e\<lparr>credential := Some ''key''\<rparr>"

text \<open>The world of the scenario with a plotting library that fails on \<^verbatim>\<open>$$\<close>.\<close>

definition world_title_fails :: world where
  "world_title_fails = world_e2e\<lparr>draw_cvss := cvss_title_fails\<rparr>"

text \<open>A credential is set and the completion service answers with the text \<^verbatim>\<open>{}\<close>: valid
  JSON without any of the requested fields.\<close>

definition world_wrong_shape :: world where
  "world_wrong_shape = world_e2e
     \<lparr>credential := Some ''key'',
      completion_service :=
        Reply 200 (Some (JObj [(''choices'',
          JArr [JObj [(''message'', JObj [(''role'', JStr ''assistant''), (''content'', JStr ''{}'')])]])])),
      json_loads := loads_empty_object\<rparr>"

definition input_e2e :: CVEInput where
  "input_e2e = \<lparr>CVEInput.cve_id = ''CVE-2023-4863'', cvss_vector = None, severity = ''CRITICAL'',
     cvss_score = lit 980 2, summary = ''libwebp heap overflow'', description = ''...''\<rparr>"

text \<open>The response to the end-to-end scenario.\<close>

definition response_e2e :: CVEAnalysisResponse where
  "response_e2e =
     \<lparr>CVEAnalysisResponse.cve_id = ''CVE-2023-4863'', cvss_vector = None,
      severity = ''CRITICAL'', cvss_score = lit 980 2,
      simple_summary = ''libwebp heap overflow'', simple_description = ''...'',
      affected_products = [''Affected software components''],
      affected_assets = [''Servers'', ''Production systems'', ''Internet-facing hosts''],
      fixes_list = [''Apply vendor security patches'', ''Upgrade to the latest stable version'',
        ''Restrict network access'', ''Monitor logs for exploitation attempts''],
      epss_score = lit 2 2, epss_30d_prediction = lit 23 3,
      cvss_heatmap_url = ''/static/images/cvss_0f8fad5bd9cb469fa16570867728950e.png'',
      epss_plot_url = ''/static/images/epss_7c9e6679742540de944be07fc1f90ae7.png''\<rparr>"

definition input_dollars :: CVEInput where
  "input_dollars = input_e2e\<lparr>CVEInput.cve_id := ''$$''\<rparr>"

definition input_bad_id :: CVEInput where
  "input_bad_id = input_e2e\<lparr>CVEInput.cve_id := ''not-a-cve''\<rparr>"

definition input_lower_severity :: CVEInput where
  "input_lower_severity = input_e2e\<lparr>CVEInput.severity := ''high''\<rparr>"

definition input_extreme :: CVEInput where
  "input_extreme = input_e2e\<lparr>CVEInput.severity := ''EXTREME''\<rparr>"

definition input_score_11 :: CVEInput where
  "input_score_11 = input_e2e\<lparr>CVEInput.cvss_score := lit 1100 2\<rparr>"

definition input1_ok :: CVEInput_fastapi1 where
  "input1_ok = \<lparr>CVEInput_fastapi1.cve_id = ''CVE-2023-4863'',
     cvss_vector = ''AV:N/AC:L/PR:N/UI:N/S:U/C:H/I:H/A:H'', severity = ''CRITICAL'',
     cvss_score = lit 980 2, affected_assets = [''libwebp < 1.3.2'']\<rparr>"

definition input1_extreme :: CVEInput_fastapi1 where
  "input1_extreme = input1_ok\<lparr>CVEInput_fastapi1.severity := ''EXTREME''\<rparr>"

definition input1_bad_id :: CVEInput_fastapi1 where
  "input1_bad_id = input1_ok\<lparr>CVEInput_fastapi1.cve_id := ''not-a-cve''\<rparr>"

definition input1_score_11 :: CVEInput_fastapi1 where
  "input1_score_11 = input1_ok\<lparr>CVEInput_fastapi1.cvss_score := lit 1100 2\<rparr>"

text \<open>
  A library that, beyond ASCII, knows two entries of the Unicode tables: the upper case of
  the dotless i (U+0131, the bytes C4 B1) is \<open>I\<close>, and the Arabic-Indic digits (U+0660 to
  U+0669, the bytes D9 A0 to D9 A9) are decimal digits. With it come the severity
  \<open>h\<close>, dotless i, \<open>gh\<close> and an identifier whose number is written in Arabic-Indic digits.
\<close>

definition upper_dotless_i :: "string \<Rightarrow> string" where
  "upper_dotless_i s =
     (if s = [CHR ''h'', CHR 0xC4, CHR 0xB1, CHR ''g'', CHR ''h''] then ''HIGH''
      else ascii_upper s)"

definition arabic_indic_digit :: "string \<Rightarrow> string option" where
  "arabic_indic_digit s =
     (case s of
        c # d # cs \<Rightarrow>
          if c = CHR 0xD9 \<and> d \<in> set [CHR 0xA0, CHR 0xA1, CHR 0xA2, CHR 0xA3, CHR 0xA4,
                                         CHR 0xA5, CHR 0xA6, CHR 0xA7, CHR 0xA8, CHR 0xA9]
          then Some cs else ascii_digit s
      | _ \<Rightarrow> ascii_digit s)"

definition world_unicode :: world where
  "world_unicode = world_down\<lparr>str_upper := upper_dotless_i, match_digit := arabic_indic_digit\<rparr>"

definition input_dotless_i :: CVEInput where
  "input_dotless_i =
     input_e2e\<lparr>CVEInput.severity := [CHR ''h'', CHR 0xC4, CHR 0xB1, CHR ''g'', CHR ''h'']\<rparr>"

definition input1_arabic_indic :: CVEInput_fastapi1 where
  "input1_arabic_indic =
     input1_ok\<lparr>CVEInput_fastapi1.cve_id :=
       ''CVE-2023-'' @ [CHR 0xD9, CHR 0xA4, CHR 0xD9, CHR 0xA8, CHR 0xD9, CHR 0xA6, CHR 0xD9, CHR 0xA3]\<rparr>"

section \<open>Properties of the float model\<close>

subsection \<open>Rounding to an integer\<close>

lemma rhe_lower: "x - 1/2 \<le> of_int (rhe x)"
  unfolding rhe_def Let_def by (auto; linarith)

lemma rhe_upper: "of_int (rhe x) \<le> x + 1/2"
  unfolding rhe_def Let_def by (auto; linarith)

lemma rhe_of_int: "rhe (of_int n) = n"
  by (simp add: rhe_def)

lemma rhe_ge: "of_int n \<le> x \<Longrightarrow> n \<le> rhe x"
proof -
  assume "of_int n \<le> x"
  then have "n \<le> \<lfloor>x\<rfloor>" by (simp add: le_floor_iff)
  moreover have "\<lfloor>x\<rfloor> \<le> rhe x" by (simp add: rhe_def Let_def)
  ultimately show ?thesis by linarith
qed

lemma rhe_le: "x \<le> of_int n \<Longrightarrow> rhe x \<le> n"
proof -
  assume h: "x \<le> of_int n"
  show ?thesis
  proof (cases "x = of_int n")
    case True
    then show ?thesis by (simp add: rhe_of_int)
  next
    case False
    with h have "x < of_int n" by simp
    then have "\<lfloor>x\<rfloor> < n" by (simp add: floor_less_iff)
    moreover have "rhe x \<le> \<lfloor>x\<rfloor> + 1" by (simp add: rhe_def Let_def)
    ultimately show ?thesis by linarith
  qed
qed

subsection \<open>The exponent\<close>

lemma powi_neg_succ: "(2::real) powi (- (int k + 1)) = 1 / 2 ^ (k + 1)"
proof -
  have "- (int k + 1) = - int (Suc k)" by simp
  then have "(2::real) powi (- (int k + 1)) = inverse (2 powi int (Suc k))"
    by (simp only: power_int_minus)
  also have "\<dots> = 1 / 2 ^ (k + 1)" by (simp add: field_simps power_int_add)
  finally show ?thesis .
qed

lemma powi_neg_succ_add: "(2::real) powi (- (int k + 1) + 1) = 1 / 2 ^ k"
proof -
  have "- (int k + 1) + 1 = - int k" by simp
  then have "(2::real) powi (- (int k + 1) + 1) = inverse (2 powi int k)"
    by (simp only: power_int_minus)
  also have "\<dots> = 1 / 2 ^ k" by (simp add: field_simps)
  finally show ?thesis .
qed

text \<open>The computed exponent is the binary exponent.\<close>

lemma binade_bounds:
  assumes "0 < x"
  shows "2 powi binade x \<le> x \<and> x < 2 powi (binade x + 1)"
proof (cases "1 \<le> x")
  case True
  define n where "n = \<lfloor>x\<rfloor>"
  have n: "0 < n" using True by (simp add: n_def)
  define k where "k = nat (bitlen n - 1)"
  have b: "bitlen n = int k + 1"
    using n bitlen_nonneg [of n] bitlen_eq_zero_iff [of n] by (simp add: k_def)
  have nk: "nat (bitlen n - 1) = k" "nat (bitlen n) = k + 1" by (simp_all add: b nat_add_distrib)
  have bb: "2 ^ k \<le> n" "n < 2 ^ (k + 1)"
    using bitlen_bounds [OF n] unfolding nk by simp_all
  have e: "binade x = int k" using True assms by (simp add: binade_def n_def [symmetric] b)
  have "real_of_int (2 ^ k) \<le> real_of_int n" using bb(1) by (simp only: of_int_le_iff)
  also have "\<dots> \<le> x" by (simp add: n_def)
  finally have l: "2 ^ k \<le> x" by simp
  have "n + 1 \<le> 2 ^ (k + 1)" using bb(2) by simp
  then have "real_of_int (n + 1) \<le> real_of_int (2 ^ (k + 1))" by (simp only: of_int_le_iff)
  moreover have "x < real_of_int (n + 1)" unfolding n_def by linarith
  ultimately have u: "x < 2 ^ (k + 1)" by simp
  show ?thesis using l u by (simp add: e power_int_add)
next
  case False
  then have x1: "x < 1" by simp
  define m where "m = \<lceil>1 / x\<rceil> - 1"
  have "1 < 1 / x" using assms x1 by simp
  then have m: "0 < m" unfolding m_def by linarith
  define k where "k = nat (bitlen m - 1)"
  have b: "bitlen m = int k + 1"
    using m bitlen_nonneg [of m] bitlen_eq_zero_iff [of m] by (simp add: k_def)
  have nk: "nat (bitlen m - 1) = k" "nat (bitlen m) = k + 1" by (simp_all add: b nat_add_distrib)
  have bb: "2 ^ k \<le> m" "m < 2 ^ (k + 1)"
    using bitlen_bounds [OF m] unfolding nk by simp_all
  have e: "binade x = - (int k + 1)" using x1 assms by (simp add: binade_def m_def [symmetric] b)
  have "m + 1 \<le> 2 ^ (k + 1)" using bb(2) by simp
  then have "real_of_int (m + 1) \<le> real_of_int (2 ^ (k + 1))" by (simp only: of_int_le_iff)
  moreover have "1 / x \<le> real_of_int (m + 1)" unfolding m_def by simp
  ultimately have "1 / x \<le> 2 ^ (k + 1)" by simp
  then have l: "1 / 2 ^ (k + 1) \<le> x" using assms by (simp add: field_simps)
  have "(2::real) ^ k = real_of_int (2 ^ k)" by simp
  also have "\<dots> \<le> real_of_int m" using bb(1) by (simp only: of_int_le_iff)
  also have "\<dots> < 1 / x" unfolding m_def by linarith
  finally have "2 ^ k < 1 / x" .
  then have u: "x < 1 / 2 ^ k" using assms by (simp add: field_simps)
  note p1 = powi_neg_succ [of k] and p2 = powi_neg_succ_add [of k]
  show ?thesis unfolding e p1 p2 using l u by simp
qed

lemma binade_lt_1: "0 < x \<Longrightarrow> x < 1 \<Longrightarrow> binade x \<le> - 1"
proof -
  assume p: "0 < x" and l: "x < 1"
  then have "1 < 1 / x" by simp
  then have "2 \<le> \<lceil>1 / x\<rceil>" by linarith
  then have "0 < \<lceil>1 / x\<rceil> - 1" by linarith
  then have "bitlen (\<lceil>1 / x\<rceil> - 1) \<noteq> 0" by (simp add: bitlen_eq_zero_iff)
  then have "1 \<le> bitlen (\<lceil>1 / x\<rceil> - 1)" using bitlen_nonneg [of "\<lceil>1 / x\<rceil> - 1"] by linarith
  with p l show ?thesis by (simp add: binade_def Let_def)
qed

subsection \<open>Rounding to a float\<close>

text \<open>Rounding keeps the sign, moves a number by at most half the spacing, and maps the
  unit interval into itself.\<close>

lemma fl_1: "fl 1 = 1"
  by (simp add: fl_def ulp_exp_def binade_def compute_bitlen rhe_def Let_def)

lemma fl_nonneg: "0 \<le> x \<Longrightarrow> 0 \<le> fl x"
proof -
  assume "0 \<le> x"
  then have "of_int 0 \<le> x / 2 powi ulp_exp x" by simp
  then have "0 \<le> rhe (x / 2 powi ulp_exp x)" by (rule rhe_ge)
  then show ?thesis by (simp add: fl_def)
qed

lemma fl_nonpos: "x \<le> 0 \<Longrightarrow> fl x \<le> 0"
proof -
  assume "x \<le> 0"
  then have "x / 2 powi ulp_exp x \<le> of_int 0" by (simp add: divide_le_0_iff)
  then have "rhe (x / 2 powi ulp_exp x) \<le> 0" by (rule rhe_le)
  then show ?thesis by (simp add: fl_def mult_le_0_iff)
qed

lemma fl_error: "\<bar>fl x - x\<bar> \<le> 2 powi ulp_exp x / 2"
proof (cases "x = 0")
  case True
  then show ?thesis by (simp add: fl_def)
next
  case False
  define u :: real where "u = 2 powi ulp_exp x"
  have u: "0 < u" by (simp add: u_def)
  define z where "z = x / u"
  have x: "x = z * u" using u by (simp add: z_def)
  have "fl x = of_int (rhe z) * u"
    using False by (simp add: fl_def u_def z_def)
  then have "fl x - x = (of_int (rhe z) - z) * u"
    using x by (simp add: algebra_simps)
  moreover have "\<bar>of_int (rhe z) - z\<bar> \<le> 1/2"
    using rhe_lower [of z] rhe_upper [of z] by linarith
  ultimately have "\<bar>fl x - x\<bar> \<le> 1/2 * u"
    using u by (simp add: abs_mult mult_right_mono)
  then show ?thesis by (simp add: u_def)
qed

lemma ulp_small: "0 < x \<Longrightarrow> x < 1 \<Longrightarrow> ulp_exp x \<le> - 53"
  using binade_lt_1 [of x] by (simp add: ulp_exp_def)

lemma fl_error_unit: "0 \<le> x \<Longrightarrow> x \<le> 1 \<Longrightarrow> \<bar>fl x - x\<bar> \<le> 1 / 2 ^ 54"
proof -
  assume a: "0 \<le> x" "x \<le> 1"
  consider "x = 0" | "x = 1" | "0 < x" "x < 1" using a by linarith
  then show ?thesis
  proof cases
    case 1 then show ?thesis by (simp add: fl_def)
  next
    case 2 then show ?thesis by (simp add: fl_1)
  next
    case 3
    then have "ulp_exp x \<le> - 53" by (rule ulp_small)
    then have "(2::real) powi ulp_exp x \<le> 2 powi (- 53)"
      by (intro power_int_increasing) simp_all
    then have "(2::real) powi ulp_exp x / 2 \<le> 1 / 2 ^ 54"
      by (simp add: power_int_minus field_simps)
    with fl_error [of x] show ?thesis by linarith
  qed
qed

lemma fl_le_1: "x \<le> 1 \<Longrightarrow> fl x \<le> 1"
proof -
  assume a: "x \<le> 1"
  consider "x \<le> 0" | "x = 1" | "0 < x" "x < 1" using a by linarith
  then show ?thesis
  proof cases
    case 1 then show ?thesis using fl_nonpos [of x] by linarith
  next
    case 2 then show ?thesis by (simp add: fl_1)
  next
    case 3
    define k where "k = nat (- ulp_exp x)"
    have e: "ulp_exp x = - int k" using ulp_small [OF 3] by (simp add: k_def)
    have p: "(2::real) powi ulp_exp x = 1 / 2 ^ k"
      by (simp add: e power_int_minus field_simps)
    have "x / 2 powi ulp_exp x = x * 2 ^ k" by (simp add: p)
    also have "\<dots> \<le> of_int (2 ^ k)" using 3 by simp
    finally have "rhe (x / 2 powi ulp_exp x) \<le> 2 ^ k" by (rule rhe_le)
    then have "real_of_int (rhe (x / 2 powi ulp_exp x)) \<le> 2 ^ k"
      by (metis of_int_le_iff of_int_numeral of_int_power)
    then show ?thesis using 3 by (simp add: fl_def p field_simps)
  qed
qed

subsection \<open>Literals, products and decimal rounding\<close>

text \<open>The literals of the three tables, as the fractions Python reads.\<close>

lemmas fl_eval = lit_def fl_def ulp_exp_def binade_def compute_bitlen rhe_def Let_def

lemma lit_values:
  "lit 5 3 = 5764607523034235 / 2 ^ 60"
  "lit 2 2 = 5764607523034235 / 2 ^ 58"
  "lit 10 2 = 3602879701896397 / 2 ^ 55"
  "lit 130 2 = 5854679515581645 / 2 ^ 52"
  "lit 115 2 = 2589569785738035 / 2 ^ 51"
  "lit 105 2 = 4728779608739021 / 2 ^ 52"
  "lit 97 2 = 4368491638549381 / 2 ^ 52"
  by (simp_all add: fl_eval)

lemma lit_values_fastapi1:
  "lit 1 2 = 5764607523034235 / 2 ^ 59"
  "lit 5 2 = 3602879701896397 / 2 ^ 56"
  "lit 20 2 = 3602879701896397 / 2 ^ 54"
  "lit 50 2 = 1 / 2"
  "lit 150 2 = 3 / 2"
  "lit 108 2 = 607985949695017 / 2 ^ 49"
  "lit 103 2 = 4638707616191611 / 2 ^ 52"
  by (simp_all add: fl_eval)

lemma py_round_unit: "0 \<le> y \<Longrightarrow> y \<le> 1 \<Longrightarrow> 0 \<le> py_round y 5 \<and> py_round y 5 \<le> 1"
proof -
  assume a: "0 \<le> y" "y \<le> 1"
  have "of_int 0 \<le> y * 10 ^ 5" using a by simp
  then have l: "0 \<le> rhe (y * 10 ^ 5)" by (rule rhe_ge)
  have "y * 10 ^ 5 \<le> of_int 100000" using a by simp
  then have u: "rhe (y * 10 ^ 5) \<le> 100000" by (rule rhe_le)
  have "0 \<le> real_of_int (rhe (y * 10 ^ 5)) / 10 ^ 5" using l by simp
  moreover have "real_of_int (rhe (y * 10 ^ 5)) / 10 ^ 5 \<le> 1" using u by simp
  ultimately show ?thesis by (simp add: py_round_def fl_nonneg fl_le_1)
qed

lemma py_round_error:
  assumes "0 \<le> y" "y \<le> 1"
  shows "\<bar>py_round y 5 - y\<bar> \<le> 1 / 200000 + 1 / 2 ^ 54"
proof -
  define q where "q = real_of_int (rhe (y * 10 ^ 5)) / 10 ^ 5"
  have "of_int 0 \<le> y * 10 ^ 5" using assms by simp
  then have l: "0 \<le> rhe (y * 10 ^ 5)" by (rule rhe_ge)
  have "y * 10 ^ 5 \<le> of_int 100000" using assms by simp
  then have u: "rhe (y * 10 ^ 5) \<le> 100000" by (rule rhe_le)
  have q01: "0 \<le> q" "q \<le> 1" using l u by (simp_all add: q_def)
  have "\<bar>real_of_int (rhe (y * 10 ^ 5)) - y * 10 ^ 5\<bar> \<le> 1 / 2"
    using rhe_lower [of "y * 10 ^ 5"] rhe_upper [of "y * 10 ^ 5"] by linarith
  then have "\<bar>q - y\<bar> \<le> 1 / 200000" by (simp add: q_def field_simps)
  moreover have "\<bar>fl q - q\<bar> \<le> 1 / 2 ^ 54" using q01 by (rule fl_error_unit)
  moreover have "py_round y 5 = fl q" by (simp add: py_round_def q_def)
  ultimately show ?thesis by linarith
qed

lemma fmul_unit: "0 \<le> x \<Longrightarrow> 0 \<le> g \<Longrightarrow> x * g \<le> 1 \<Longrightarrow> 0 \<le> fmul x g \<and> fmul x g \<le> 1"
  by (simp add: fmul_def fl_nonneg fl_le_1)

lemma clamped_unit: "0 \<le> x \<Longrightarrow> 0 \<le> g \<Longrightarrow> 0 \<le> py_round (min 1 (fmul x g)) 5 \<and> py_round (min 1 (fmul x g)) 5 \<le> 1"
proof -
  assume "0 \<le> x" "0 \<le> g"
  then have "0 \<le> fmul x g" by (simp add: fmul_def fl_nonneg)
  then have "0 \<le> min 1 (fmul x g)" "min 1 (fmul x g) \<le> 1" by simp_all
  then show ?thesis by (rule py_round_unit)
qed

lemma predict_epss_30d_unit:
  "0 \<le> current \<Longrightarrow> 0 \<le> predict_epss_30d current \<and> predict_epss_30d current \<le> 1"
  unfolding predict_epss_30d_def Let_def
  by (intro clamped_unit) (simp_all add: lit_values)

lemma predict_epss_30d_fastapi1_unit:
  "0 \<le> cur \<Longrightarrow> 0 \<le> predict_epss_30d_fastapi1 cur \<and> predict_epss_30d_fastapi1 cur \<le> 1"
  unfolding predict_epss_30d_fastapi1_def Let_def
  by (intro clamped_unit) (simp_all add: lit_values lit_values_fastapi1)

section \<open>The projection\<close>

text \<open>
  C1. For every current value in \<open>[0, 1]\<close> the projection lies in \<open>[0, 1]\<close>. Both banded
  functions clamp (\<open>predict_epss_30d_unit\<close>, \<open>predict_epss_30d_fastapi1_unit\<close>); \<open>epss_predict\<close>
  of \<open>fastapi(2).py\<close> does not: at the current value \<open>0.9\<close> it returns \<open>1.035\<close>.
\<close>

theorem epss_predict_exceeds_one:
  "0 \<le> lit 9 1 \<and> lit 9 1 \<le> 1 \<and> epss_predict (lit 9 1) = lit 1035 3 \<and> 1 < epss_predict (lit 9 1)"
  by code_simp

text \<open>
  C2. For every current value in \<open>[0, 0.005)\<close> the banded projection of \<open>finallayer3.py\<close>
  returns exactly \<open>min(1.0, round(current * 1.30, 5))\<close>.
\<close>

theorem predict_epss_30d_lowest_band:
  assumes "0 \<le> current" "current < lit 5 3"
  shows "predict_epss_30d current = min 1 (py_round (fmul current (lit 130 2)) 5)"
proof -
  have c: "current \<le> 1 / 2" using assms by (simp add: lit_values)
  have g: "0 \<le> lit 130 2" "lit 130 2 \<le> 2" by (simp_all add: lit_values)
  have "current * lit 130 2 \<le> (1 / 2) * 2"
    using assms(1) c g by (intro mult_mono) simp_all
  then have p: "current * lit 130 2 \<le> 1" by simp
  from fmul_unit [OF assms(1) g(1) p]
  have m: "0 \<le> fmul current (lit 130 2)" "fmul current (lit 130 2) \<le> 1" by simp_all
  then have "py_round (fmul current (lit 130 2)) 5 \<le> 1"
    using py_round_unit by blast
  then show ?thesis using assms m by (simp add: predict_epss_30d_def)
qed

theorem predict_epss_30d_lowest_band_witness:
  "0 \<le> lit 1 3 \<and> lit 1 3 < lit 5 3
   \<and> predict_epss_30d (lit 1 3) = min 1 (py_round (fmul (lit 1 3) (lit 130 2)) 5)
   \<and> predict_epss_30d (lit 1 3) = lit 13 4"
proof -
  have h1: "0 \<le> lit 1 3" by code_simp
  have h2: "lit 1 3 < lit 5 3" by code_simp
  have v: "predict_epss_30d (lit 1 3) = lit 13 4" by code_simp
  show ?thesis using h1 h2 v predict_epss_30d_lowest_band [OF h1 h2] by simp
qed

text \<open>
  C3. For every current value in \<open>[0.10, 1.0]\<close> the banded projection of \<open>finallayer3.py\<close>
  returns exactly \<open>round(current * 0.97, 5)\<close>, and this is a decrease: the projection
  is below the current value.
\<close>

theorem predict_epss_30d_top_band:
  assumes "lit 10 2 \<le> current" "current \<le> 1"
  shows "predict_epss_30d current = py_round (fmul current (lit 97 2)) 5
         \<and> predict_epss_30d current < current"
proof -
  have c: "9 / 100 \<le> current" using assms by (simp add: lit_values)
  then have c0: "0 \<le> current" by simp
  have g: "0 \<le> lit 97 2" "lit 97 2 \<le> 98 / 100" by (simp_all add: lit_values)
  have "current * lit 97 2 \<le> 1 * 1"
    using assms(2) c0 g by (intro mult_mono) simp_all
  then have p: "current * lit 97 2 \<le> 1" by simp
  have p0: "0 \<le> current * lit 97 2" using c0 g by simp
  from fmul_unit [OF c0 g(1) p]
  have m: "0 \<le> fmul current (lit 97 2)" "fmul current (lit 97 2) \<le> 1" by simp_all
  have nb: "\<not> current < lit 5 3" "\<not> current < lit 2 2" "\<not> current < lit 10 2"
    using assms(1) by (simp_all add: lit_values)
  have eq: "predict_epss_30d current = py_round (fmul current (lit 97 2)) 5"
    using nb m by (simp add: predict_epss_30d_def)
  have e1: "\<bar>fmul current (lit 97 2) - current * lit 97 2\<bar> \<le> 1 / 2 ^ 54"
    unfolding fmul_def using p0 p by (rule fl_error_unit)
  have e2: "\<bar>py_round (fmul current (lit 97 2)) 5 - fmul current (lit 97 2)\<bar>
      \<le> 1 / 200000 + 1 / 2 ^ 54"
    using m by (rule py_round_error)
  have t: "current * lit 97 2 \<le> current * (98 / 100)"
    using c0 g by (intro mult_left_mono) simp_all
  have s: "(1::real) / 2 ^ 54 \<le> 1 / 1000000" by simp
  have "py_round (fmul current (lit 97 2)) 5 < current"
    using e1 e2 c t s by linarith
  with eq show ?thesis by simp
qed

theorem predict_epss_30d_top_band_witness:
  "lit 10 2 \<le> lit 50 2 \<and> lit 50 2 \<le> 1
   \<and> predict_epss_30d (lit 50 2) = py_round (fmul (lit 50 2) (lit 97 2)) 5
   \<and> predict_epss_30d (lit 50 2) < lit 50 2
   \<and> predict_epss_30d (lit 50 2) = lit 485 3"
proof -
  have h1: "lit 10 2 \<le> lit 50 2" by code_simp
  have h2: "lit 50 2 \<le> 1" by code_simp
  have v: "predict_epss_30d (lit 50 2) = lit 485 3" by code_simp
  show ?thesis using h1 h2 v predict_epss_30d_top_band [OF h1 h2] by simp
qed

text \<open>
  C10. The banded projection of \<open>finallayer3.py\<close> is not monotone: \<open>0.0049 < 0.005\<close>, both in
  \<open>[0, 1]\<close>, and the projection of \<open>0.0049\<close>, which is \<open>0.00637\<close> (multiplier \<open>1.30\<close>), is above
  the projection of \<open>0.005\<close>, which is \<open>0.00575\<close> (multiplier \<open>1.15\<close>).
\<close>

theorem predict_epss_30d_not_monotone:
  "0 \<le> lit 49 4 \<and> lit 49 4 < lit 5 3 \<and> lit 5 3 \<le> 1
   \<and> predict_epss_30d (lit 49 4) = lit 637 5
   \<and> predict_epss_30d (lit 5 3) = lit 575 5
   \<and> predict_epss_30d (lit 5 3) < predict_epss_30d (lit 49 4)"
  by code_simp

section \<open>The score adapter\<close>

lemmas worlds = world_down_def world_unavailable_def world_not_json_def world_no_data_def
  world_empty_credential_def world_e2e_def world_e2e_keyed_def world_title_fails_def
  world_wrong_shape_def service_down_def service_unavailable_def service_not_json_def
  service_no_data_def service_0_02_def no_float_def no_json_def float_0_02_def
  loads_empty_object_def cvss_drawn_def epss_drawn_def cvss_title_fails_def

lemmas http_steps = bindE_def raise_for_status_def response_json_def

lemma fetch_epss_fastapi1_total:
  "fetch_epss_fastapi1 w c = Inr (case fetch_epss_fastapi1_try w c of Inl e \<Rightarrow> 0 | Inr v \<Rightarrow> v)"
  by (simp add: fetch_epss_fastapi1_def split: sum.splits)

lemma epss_live_total:
  "epss_live w c = Inr (case epss_live_try w c of Inl e \<Rightarrow> 0 | Inr v \<Rightarrow> v)"
  by (simp add: epss_live_def split: sum.splits)

lemma service_unreachable:
  assumes "epss_service w c = Unreachable"
  shows "fetch_epss_fastapi1 w c = Inr 0" "epss_live w c = Inr 0"
  using assms
  by (simp_all add: fetch_epss_fastapi1_def fetch_epss_fastapi1_try_def epss_live_def epss_live_try_def)

lemma service_http_error:
  assumes "epss_service w c = Reply status body" "400 \<le> status" "status < 600"
  shows "fetch_epss_fastapi1 w c = Inr 0" "epss_live w c = Inr 0"
  using assms
  by (simp_all add: fetch_epss_fastapi1_def fetch_epss_fastapi1_try_def epss_live_def
      epss_live_try_def http_steps)

lemma service_not_json:
  assumes "epss_service w c = Reply status None"
  shows "fetch_epss_fastapi1 w c = Inr 0" "epss_live w c = Inr 0"
  using assms
  by (simp_all add: fetch_epss_fastapi1_def fetch_epss_fastapi1_try_def epss_live_def
      epss_live_try_def http_steps)

lemma service_empty_data:
  assumes "epss_service w c = Reply status (Some (JObj kvs))" "map_of kvs ''data'' = Some (JArr [])"
  shows "fetch_epss_fastapi1 w c = Inr 0" "epss_live w c = Inr 0"
  using assms
  by (simp_all add: fetch_epss_fastapi1_def fetch_epss_fastapi1_try_def epss_live_def
      epss_live_try_def http_steps)

text \<open>
  C4 as stated: the score adapter (\<open>fetch_epss\<close>, \<open>epss_live\<close>) never raises and returns \<open>0.0\<close> on
  an empty data list. The \<open>fetch_epss\<close> of \<open>finallayer3.py\<close> has no handler: on an empty data
  list it raises the \<open>RuntimeError\<close> it constructs itself, and an unreachable service
  raises as well.
\<close>

theorem fetch_epss_raises:
  "fetch_epss world_no_data ''CVE-2023-4863'' = Inl RuntimeError
   \<and> fetch_epss world_down ''CVE-2023-4863'' = Inl RequestException
   \<and> fetch_epss world_not_json ''CVE-2023-4863'' = Inl JSONDecodeError"
  by (simp add: fetch_epss_def worlds http_steps)

text \<open>
  C4, amended: the score adapters of the two web services, \<open>fetch_epss\<close> of \<open>fastapi(1).py\<close>
  and \<open>epss_live\<close> of \<open>fastapi(2).py\<close>, never raise: for every identifier and every
  behaviour of the service they return a number, and that number is \<open>0.0\<close> when the
  service cannot be reached, when it answers with an HTTP error status, when the body is
  not JSON, when the data list is empty, and whenever any step of the guarded body raises.
\<close>

theorem score_adapter_never_raises:
  "(\<exists>v. fetch_epss_fastapi1 w c = Inr v) \<and> (\<exists>v. epss_live w c = Inr v)
   \<and> (epss_service w c = Unreachable
        \<longrightarrow> fetch_epss_fastapi1 w c = Inr 0 \<and> epss_live w c = Inr 0)
   \<and> (epss_service w c = Reply status body \<and> 400 \<le> status \<and> status < 600
        \<longrightarrow> fetch_epss_fastapi1 w c = Inr 0 \<and> epss_live w c = Inr 0)
   \<and> (epss_service w c = Reply status None
        \<longrightarrow> fetch_epss_fastapi1 w c = Inr 0 \<and> epss_live w c = Inr 0)
   \<and> (epss_service w c = Reply status (Some (JObj kvs)) \<and> map_of kvs ''data'' = Some (JArr [])
        \<longrightarrow> fetch_epss_fastapi1 w c = Inr 0 \<and> epss_live w c = Inr 0)
   \<and> (fetch_epss_fastapi1_try w c = Inl e \<longrightarrow> fetch_epss_fastapi1 w c = Inr 0)
   \<and> (epss_live_try w c = Inl e \<longrightarrow> epss_live w c = Inr 0)"
proof -
  have "\<exists>v. fetch_epss_fastapi1 w c = Inr v" using fetch_epss_fastapi1_total by blast
  moreover have "\<exists>v. epss_live w c = Inr v" using epss_live_total by blast
  moreover have "fetch_epss_fastapi1_try w c = Inl e \<longrightarrow> fetch_epss_fastapi1 w c = Inr 0"
    by (simp add: fetch_epss_fastapi1_def)
  moreover have "epss_live_try w c = Inl e \<longrightarrow> epss_live w c = Inr 0"
    by (simp add: epss_live_def)
  ultimately show ?thesis
    using service_unreachable [of w c] service_http_error [of w c status body]
      service_not_json [of w c status] service_empty_data [of w c status kvs]
    by blast
qed

theorem score_adapter_never_raises_witness:
  "epss_service world_down ''CVE-2023-4863'' = Unreachable
   \<and> fetch_epss_fastapi1_try world_down ''CVE-2023-4863'' = Inl RequestException
   \<and> epss_live_try world_down ''CVE-2023-4863'' = Inl RequestException
   \<and> fetch_epss_fastapi1 world_down ''CVE-2023-4863'' = Inr 0
   \<and> epss_live world_down ''CVE-2023-4863'' = Inr 0
   \<and> epss_service world_unavailable ''CVE-2023-4863'' = Reply 503 None
   \<and> (400::nat) \<le> 503 \<and> (503::nat) < 600
   \<and> fetch_epss_fastapi1 world_unavailable ''CVE-2023-4863'' = Inr 0
   \<and> epss_live world_unavailable ''CVE-2023-4863'' = Inr 0
   \<and> epss_service world_not_json ''CVE-2023-4863'' = Reply 200 None
   \<and> fetch_epss_fastapi1 world_not_json ''CVE-2023-4863'' = Inr 0
   \<and> epss_live world_not_json ''CVE-2023-4863'' = Inr 0
   \<and> epss_service world_no_data ''CVE-2023-4863''
       = Reply 200 (Some (JObj [(''status'', JStr ''OK''), (''data'', JArr [])]))
   \<and> map_of [(''status'', JStr ''OK''), (''data'', JArr [])] ''data'' = Some (JArr [])
   \<and> fetch_epss_fastapi1 world_no_data ''CVE-2023-4863'' = Inr 0
   \<and> epss_live world_no_data ''CVE-2023-4863'' = Inr 0"
proof -
  have d: "epss_service world_down ''CVE-2023-4863'' = Unreachable"
    "fetch_epss_fastapi1_try world_down ''CVE-2023-4863'' = Inl RequestException"
    "epss_live_try world_down ''CVE-2023-4863'' = Inl RequestException"
    by (simp_all add: worlds fetch_epss_fastapi1_try_def epss_live_try_def)
  have h: "epss_service world_unavailable ''CVE-2023-4863'' = Reply 503 None"
    "(400::nat) \<le> 503" "(503::nat) < 600"
    by (simp_all add: worlds)
  have n: "epss_service world_not_json ''CVE-2023-4863'' = Reply 200 None"
    by (simp add: worlds)
  have e: "epss_service world_no_data ''CVE-2023-4863''
       = Reply 200 (Some (JObj [(''status'', JStr ''OK''), (''data'', JArr [])]))"
    "map_of [(''status'', JStr ''OK''), (''data'', JArr [])] ''data'' = Some (JArr [])"
    by (simp_all add: worlds)
  show ?thesis
    using d h n e
      score_adapter_never_raises [of world_down "''CVE-2023-4863''" 200 None "[]" RequestException]
      score_adapter_never_raises [of world_unavailable "''CVE-2023-4863''" 503 None "[]"
        RequestException]
      score_adapter_never_raises [of world_not_json "''CVE-2023-4863''" 200 None "[]" RequestException]
      score_adapter_never_raises [of world_no_data "''CVE-2023-4863''" 200 None
        "[(''status'', JStr ''OK''), (''data'', JArr [])]" RequestException]
    by simp
qed

section \<open>The analysis\<close>

lemmas inputs = input_e2e_def input_dollars_def input_bad_id_def input_lower_severity_def
  input_extreme_def input_score_11_def input1_ok_def input1_extreme_def input1_bad_id_def
  input1_score_11_def

lemma str_items_map: "str_items (map JStr ss) = Some ss"
  by (induction ss) simp_all

lemma validate_str_list_map: "validate_str_list (JArr (map JStr ss)) = Inr ss"
  by (simp add: validate_str_list_def str_items_map)

lemma fallback_products_nonempty: "fallback_products w cve \<noteq> []"
  by (simp add: fallback_products_def Let_def)

lemma fallback_fixes_nonempty: "fallback_fixes \<noteq> []"
  by (simp add: fallback_fixes_def)

lemma fallback_bundle_items:
  "getitem (fallback_bundle w cve) ''simple_summary'' = Inr (JStr (summary cve))"
  "getitem (fallback_bundle w cve) ''simple_description'' = Inr (JStr (description cve))"
  "getitem (fallback_bundle w cve) ''affected_products''
     = Inr (JArr (map JStr (fallback_products w cve)))"
  "getitem (fallback_bundle w cve) ''affected_assets'' = Inr (JArr (map JStr fallback_assets))"
  "getitem (fallback_bundle w cve) ''fixes'' = Inr (JArr (map JStr fallback_fixes))"
  by (simp_all add: fallback_bundle_def)

text \<open>With the fallback bundle, \<open>analyze\<close> is decided by the two charts: it raises what the
  first failing chart raises, and otherwise assembles the response.\<close>

lemma analyze_fallback:
  assumes "ai_analyze w cve = fallback_bundle w cve"
    and "epss_live w (CVEInput.cve_id cve) = Inr now"
  shows "analyze w cve =
    (case cvss_image w (CVEInput.cvss_score cve) (CVEInput.cve_id cve) of
       Inl err \<Rightarrow> Inl err
     | Inr heat \<Rightarrow>
        (case epss_image w now (epss_predict now) (CVEInput.cve_id cve) of
           Inl err \<Rightarrow> Inl err
         | Inr plot \<Rightarrow>
             Inr \<lparr>CVEAnalysisResponse.cve_id = CVEInput.cve_id cve,
                  cvss_vector = CVEInput.cvss_vector cve,
                  severity = CVEInput.severity cve, cvss_score = CVEInput.cvss_score cve,
                  simple_summary = summary cve, simple_description = description cve,
                  affected_products = fallback_products w cve,
                  affected_assets = fallback_assets,
                  fixes_list = fallback_fixes, epss_score = now,
                  epss_30d_prediction = epss_predict now,
                  cvss_heatmap_url = heat, epss_plot_url = plot\<rparr>))"
  unfolding analyze_def assms Let_def
  by (simp add: bindE_def fallback_bundle_items validate_str_def validate_str_list_map
      split: sum.splits)

lemma analyze_fallback_response:
  assumes "ai_analyze w cve = fallback_bundle w cve"
    and "analyze w cve = Inr r"
  shows "affected_products r = fallback_products w cve \<and> fixes_list r = fallback_fixes
         \<and> simple_summary r = summary cve \<and> simple_description r = description cve"
  using assms(2) analyze_fallback [OF assms(1) epss_live_total]
  by (auto split: sum.splits)

lemma analyze_fallback_renders:
  assumes "ai_analyze w cve = fallback_bundle w cve"
    and "epss_live w (CVEInput.cve_id cve) = Inr now"
    and "cvss_image w (CVEInput.cvss_score cve) (CVEInput.cve_id cve) = Inr heat"
    and "epss_image w now (epss_predict now) (CVEInput.cve_id cve) = Inr plot"
  shows "\<exists>r. analyze w cve = Inr r"
  using analyze_fallback [OF assms(1,2)] assms(3,4) by simp

lemma analyze_fallback_failure:
  assumes "ai_analyze w cve = fallback_bundle w cve"
    and "analyze w cve = Inl err"
  shows "cvss_image w (CVEInput.cvss_score cve) (CVEInput.cve_id cve) = Inl err
         \<or> (\<exists>now. epss_live w (CVEInput.cve_id cve) = Inr now
                \<and> epss_image w now (epss_predict now) (CVEInput.cve_id cve) = Inl err)"
  using assms(2) analyze_fallback [OF assms(1) epss_live_total] epss_live_total [of w "CVEInput.cve_id cve"]
  by (auto split: sum.splits)

lemma ai_analyze_no_key: "OPENROUTER_API_KEY w = [] \<Longrightarrow> ai_analyze w cve = fallback_bundle w cve"
  by (simp add: ai_analyze_def)

lemma ai_analyze_failure: "ai_analyze_try w = Inl e \<Longrightarrow> ai_analyze w cve = fallback_bundle w cve"
  by (simp add: ai_analyze_def)

text \<open>The scenario, step by step.\<close>

lemma input_e2e_fields:
  "CVEInput.cve_id input_e2e = ''CVE-2023-4863''" "CVEInput.cvss_vector input_e2e = None"
  "CVEInput.severity input_e2e = ''CRITICAL''" "CVEInput.cvss_score input_e2e = lit 980 2"
  "summary input_e2e = ''libwebp heap overflow''" "description input_e2e = ''...''"
  by (simp_all add: input_e2e_def)

lemma epss_live_e2e:
  "epss_live world_e2e ''CVE-2023-4863'' = Inr (lit 2 2)"
  "epss_live world_e2e_keyed ''CVE-2023-4863'' = Inr (lit 2 2)"
  by (simp_all add: epss_live_def epss_live_try_def worlds http_steps)

lemma epss_predict_e2e: "epss_predict (lit 2 2) = lit 23 3"
  by code_simp

lemma charts_e2e:
  "cvss_image world_e2e score ident
     = Inr ''/static/images/cvss_0f8fad5bd9cb469fa16570867728950e.png''"
  "epss_image world_e2e current predicted ident
     = Inr ''/static/images/epss_7c9e6679742540de944be07fc1f90ae7.png''"
  "cvss_image world_e2e_keyed score ident
     = Inr ''/static/images/cvss_0f8fad5bd9cb469fa16570867728950e.png''"
  "epss_image world_e2e_keyed current predicted ident
     = Inr ''/static/images/epss_7c9e6679742540de944be07fc1f90ae7.png''"
  by (simp_all add: cvss_image_def epss_image_def worlds)

lemma fallback_products_e2e:
  "fallback_products world_e2e input_e2e = [''Affected software components'']"
  "fallback_products world_e2e_keyed input_e2e = [''Affected software components'']"
  by (simp_all add: fallback_products_def input_e2e_fields worlds ascii_lower_def lower_char_def)

lemma ai_analyze_e2e:
  "ai_analyze world_e2e input_e2e = fallback_bundle world_e2e input_e2e"
  "ai_analyze world_e2e_keyed input_e2e = fallback_bundle world_e2e_keyed input_e2e"
proof -
  show "ai_analyze world_e2e input_e2e = fallback_bundle world_e2e input_e2e"
    by (rule ai_analyze_no_key) (simp add: OPENROUTER_API_KEY_def worlds)
  have "ai_analyze_try world_e2e_keyed = Inl RequestException"
    by (simp add: ai_analyze_try_def completion_content_def bindE_def worlds)
  then show "ai_analyze world_e2e_keyed input_e2e = fallback_bundle world_e2e_keyed input_e2e"
    by (rule ai_analyze_failure)
qed

lemma analyze_e2e:
  "analyze world_e2e input_e2e = Inr response_e2e"
  "analyze world_e2e_keyed input_e2e = Inr response_e2e"
proof -
  have l: "epss_live world_e2e (CVEInput.cve_id input_e2e) = Inr (lit 2 2)"
    "epss_live world_e2e_keyed (CVEInput.cve_id input_e2e) = Inr (lit 2 2)"
    by (simp_all add: input_e2e_fields epss_live_e2e)
  show "analyze world_e2e input_e2e = Inr response_e2e"
    by (simp add: analyze_fallback [OF ai_analyze_e2e(1) l(1)] charts_e2e epss_predict_e2e
        fallback_products_e2e input_e2e_fields fallback_assets_def fallback_fixes_def
        response_e2e_def)
  show "analyze world_e2e_keyed input_e2e = Inr response_e2e"
    by (simp add: analyze_fallback [OF ai_analyze_e2e(2) l(2)] charts_e2e epss_predict_e2e
        fallback_products_e2e input_e2e_fields fallback_assets_def fallback_fixes_def
        response_e2e_def)
qed

text \<open>A chart that fails makes \<open>analyze\<close> fail, also on the fallback path: the record with
  the identifier \<^verbatim>\<open>$$\<close> in a world whose plotting library rejects that title.\<close>

lemma analyze_chart_failure:
  "analyze world_title_fails input_dollars = Inl ValueError"
proof -
  have a: "ai_analyze world_title_fails input_dollars = fallback_bundle world_title_fails input_dollars"
    by (rule ai_analyze_no_key) (simp add: OPENROUTER_API_KEY_def worlds)
  have c: "cvss_image world_title_fails (CVEInput.cvss_score input_dollars)
             (CVEInput.cve_id input_dollars) = Inl ValueError"
    by (simp add: cvss_image_def worlds inputs)
  show ?thesis by (simp add: analyze_fallback [OF a epss_live_total] c)
qed

text \<open>
  C5 as stated: on the fallback path the result has non-empty products and fixes and echoes
  the summary and the description. The fallback of \<open>ai_generate_analysis\<close> in \<open>fastapi(1).py\<close>
  is a fixed bundle with two placeholder texts and two empty lists.
\<close>

theorem ai_generate_analysis_fallback_empty:
  "ai_generate_analysis world_down input1_ok =
     JObj [(''simple_summary'', JStr ''AI analysis unavailable''),
           (''simple_description'', JStr ''Failed to generate AI analysis''),
           (''affected_products'', JArr []), (''fixes'', JArr [])]"
  by (simp add: ai_generate_analysis_def ai_generate_analysis_try_def completion_content_def
      bindE_def worlds)

text \<open>
  C5, amended: in \<open>fastapi(2).py\<close>, on the fallback path of \<open>ai_analyze\<close> (the credential is
  empty, or the request to the completion service or the parsing of its output raises),
  for every input record the bundle that \<open>ai_analyze\<close> returns has a non-empty list of
  products and a non-empty list of fixes, and its \<open>simple_summary\<close> and \<open>simple_description\<close>
  are the summary and the description of the input. Every response that \<open>analyze\<close> returns
  carries these four fields, and \<open>analyze\<close> returns a response whenever the two charts are
  drawn.
\<close>

theorem ai_analyze_fallback_path:
  assumes "OPENROUTER_API_KEY w = [] \<or> ai_analyze_try w = Inl e"
  shows "ai_analyze w cve = fallback_bundle w cve
    \<and> getitem (ai_analyze w cve) ''simple_summary'' = Inr (JStr (summary cve))
    \<and> getitem (ai_analyze w cve) ''simple_description'' = Inr (JStr (description cve))
    \<and> getitem (ai_analyze w cve) ''affected_products''
        = Inr (JArr (map JStr (fallback_products w cve)))
    \<and> fallback_products w cve \<noteq> []
    \<and> getitem (ai_analyze w cve) ''fixes'' = Inr (JArr (map JStr fallback_fixes))
    \<and> fallback_fixes \<noteq> []
    \<and> (analyze w cve = Inr r
        \<longrightarrow> affected_products r \<noteq> [] \<and> fixes_list r \<noteq> []
            \<and> simple_summary r = summary cve \<and> simple_description r = description cve)
    \<and> (epss_live w (CVEInput.cve_id cve) = Inr now
        \<and> cvss_image w (CVEInput.cvss_score cve) (CVEInput.cve_id cve) = Inr heat
        \<and> epss_image w now (epss_predict now) (CVEInput.cve_id cve) = Inr plot
        \<longrightarrow> (\<exists>r'. analyze w cve = Inr r'))"
proof -
  have a: "ai_analyze w cve = fallback_bundle w cve"
    using assms ai_analyze_no_key ai_analyze_failure by blast
  have "analyze w cve = Inr r
        \<longrightarrow> affected_products r \<noteq> [] \<and> fixes_list r \<noteq> []
            \<and> simple_summary r = summary cve \<and> simple_description r = description cve"
    using analyze_fallback_response [OF a] fallback_products_nonempty fallback_fixes_nonempty
    by simp
  moreover have "epss_live w (CVEInput.cve_id cve) = Inr now
        \<and> cvss_image w (CVEInput.cvss_score cve) (CVEInput.cve_id cve) = Inr heat
        \<and> epss_image w now (epss_predict now) (CVEInput.cve_id cve) = Inr plot
        \<longrightarrow> (\<exists>r'. analyze w cve = Inr r')"
    using analyze_fallback_renders [OF a] by blast
  ultimately show ?thesis
    using a by (simp add: fallback_bundle_items fallback_products_nonempty fallback_fixes_nonempty)
qed

theorem ai_analyze_fallback_path_witness:
  "OPENROUTER_API_KEY world_e2e = []
   \<and> ai_analyze_try world_e2e_keyed = Inl RequestException
   \<and> analyze world_e2e input_e2e = Inr response_e2e
   \<and> analyze world_e2e_keyed input_e2e = Inr response_e2e
   \<and> epss_live world_e2e (CVEInput.cve_id input_e2e) = Inr (lit 2 2)
   \<and> cvss_image world_e2e (CVEInput.cvss_score input_e2e) (CVEInput.cve_id input_e2e)
       = Inr ''/static/images/cvss_0f8fad5bd9cb469fa16570867728950e.png''
   \<and> epss_image world_e2e (lit 2 2) (epss_predict (lit 2 2)) (CVEInput.cve_id input_e2e)
       = Inr ''/static/images/epss_7c9e6679742540de944be07fc1f90ae7.png''
   \<and> ai_analyze world_e2e input_e2e = fallback_bundle world_e2e input_e2e
   \<and> ai_analyze world_e2e_keyed input_e2e = fallback_bundle world_e2e_keyed input_e2e
   \<and> getitem (ai_analyze world_e2e input_e2e) ''affected_products''
       = Inr (JArr [JStr ''Affected software components''])
   \<and> getitem (ai_analyze world_e2e input_e2e) ''simple_summary''
       = Inr (JStr ''libwebp heap overflow'')
   \<and> affected_products response_e2e \<noteq> [] \<and> fixes_list response_e2e \<noteq> []
   \<and> simple_summary response_e2e = summary input_e2e
   \<and> simple_description response_e2e = description input_e2e
   \<and> (\<exists>r'. analyze world_e2e input_e2e = Inr r')"
proof -
  have h1: "OPENROUTER_API_KEY world_e2e = []"
    by (simp add: OPENROUTER_API_KEY_def worlds)
  have h2: "ai_analyze_try world_e2e_keyed = Inl RequestException"
    by (simp add: ai_analyze_try_def completion_content_def bindE_def worlds)
  have h3: "epss_live world_e2e (CVEInput.cve_id input_e2e) = Inr (lit 2 2)"
    by (simp add: input_e2e_fields epss_live_e2e)
  note t1 = ai_analyze_fallback_path [of world_e2e RequestException input_e2e response_e2e
      "lit 2 2" "''/static/images/cvss_0f8fad5bd9cb469fa16570867728950e.png''"
      "''/static/images/epss_7c9e6679742540de944be07fc1f90ae7.png''"]
  note t2 = ai_analyze_fallback_path [of world_e2e_keyed RequestException input_e2e response_e2e
      "lit 2 2" "''/static/images/cvss_0f8fad5bd9cb469fa16570867728950e.png''"
      "''/static/images/epss_7c9e6679742540de944be07fc1f90ae7.png''"]
  show ?thesis
    using h1 h2 h3 t1 t2 analyze_e2e charts_e2e fallback_products_e2e
    by (simp add: input_e2e_fields fallback_bundle_items)
qed

section \<open>Validation of the request\<close>

lemma lit_scores: "lit 980 2 = 2758454771764429 / 2 ^ 48" "lit 1100 2 = 11"
  by (simp_all add: fl_eval)

lemma ascii_upper_examples:
  "ascii_upper ''CRITICAL'' = ''CRITICAL''" "ascii_upper ''high'' = ''HIGH''"
  "ascii_upper ''EXTREME'' = ''EXTREME''"
  by (simp_all add: ascii_upper_def upper_char_def)

lemma pattern_examples:
  "matches_cve_pattern ascii_digit ''CVE-2023-4863''"
  "\<not> matches_cve_pattern ascii_digit ''not-a-cve''"
  by (simp_all add: matches_cve_pattern_def ascii_digit_def numeral_nat)

lemma library_of_worlds:
  "str_upper world_down = ascii_upper" "match_digit world_down = ascii_digit"
  "str_upper world_e2e = ascii_upper" "str_upper world_wrong_shape = ascii_upper"
  by (simp_all add: worlds)

text \<open>What the two validators accept: exactly the records that pass their checks.\<close>

lemma validate_CVEInput_fastapi1_accepts:
  assumes "matches_cve_pattern (match_digit w) (CVEInput_fastapi1.cve_id r)"
    and "0 \<le> CVEInput_fastapi1.cvss_score r" "CVEInput_fastapi1.cvss_score r \<le> 10"
  shows "validate_CVEInput_fastapi1 w r = Inr r"
  using assms by (simp add: validate_CVEInput_fastapi1_def)

lemma validate_CVEInput_accepts:
  assumes "str_upper w (CVEInput.severity r) \<in> set [''CRITICAL'', ''HIGH'', ''MEDIUM'', ''LOW'', ''NONE'']"
    and "0 \<le> CVEInput.cvss_score r" "CVEInput.cvss_score r \<le> 10"
  shows "validate_CVEInput w r = Inr (r\<lparr>CVEInput.severity := str_upper w (CVEInput.severity r)\<rparr>)"
  using assms by (simp add: validate_CVEInput_def validate_severity_def Let_def)

lemma validate_input_e2e:
  "validate_CVEInput world_e2e input_e2e = Inr input_e2e"
  "validate_CVEInput world_wrong_shape input_e2e = Inr input_e2e"
  "validate_CVEInput world_e2e_keyed input_e2e = Inr input_e2e"
  by (simp_all add: validate_CVEInput_def validate_severity_def worlds inputs
      ascii_upper_examples lit_scores)

text \<open>The validators follow the library beyond ASCII: with a library that knows the
  dotless i and the Arabic-Indic digits, the severity written with a dotless i is
  accepted as \<open>HIGH\<close>, and so is the identifier whose number is in Arabic-Indic digits.\<close>

lemma validation_beyond_ascii:
  "validate_CVEInput world_unicode input_dotless_i
     = Inr (input_dotless_i\<lparr>CVEInput.severity := ''HIGH''\<rparr>)"
  "validate_CVEInput_fastapi1 world_unicode input1_arabic_indic = Inr input1_arabic_indic"
proof -
  have u: "str_upper world_unicode (CVEInput.severity input_dotless_i) = ''HIGH''"
    by (simp add: world_unicode_def input_dotless_i_def upper_dotless_i_def)
  show "validate_CVEInput world_unicode input_dotless_i
     = Inr (input_dotless_i\<lparr>CVEInput.severity := ''HIGH''\<rparr>)"
    using validate_CVEInput_accepts [of world_unicode input_dotless_i] u
    by (simp add: input_dotless_i_def input_e2e_def lit_scores)
  have m: "matches_cve_pattern (match_digit world_unicode)
             (CVEInput_fastapi1.cve_id input1_arabic_indic)"
    by (simp add: world_unicode_def input1_arabic_indic_def matches_cve_pattern_def
        arabic_indic_digit_def ascii_digit_def numeral_nat)
  show "validate_CVEInput_fastapi1 world_unicode input1_arabic_indic = Inr input1_arabic_indic"
    using validate_CVEInput_fastapi1_accepts [OF m]
    by (simp add: input1_arabic_indic_def input1_ok_def lit_scores)
qed

text \<open>
  C6 as stated: validation fails whenever the identifier does not match the pattern,
  whenever the score is outside \<open>[0, 10]\<close> and whenever the severity is not one of the five
  names. The model of \<open>fastapi(2).py\<close> accepts the severity \<open>high\<close>, which is none of the five
  names and which its validator upper-cases and stores as \<open>HIGH\<close>; it also accepts the
  identifier \<open>not-a-cve\<close>, and the model of \<open>fastapi(1).py\<close> accepts the severity \<open>EXTREME\<close>.
\<close>

theorem validation_accepts:
  "validate_CVEInput world_down input_lower_severity
       = Inr (input_lower_severity\<lparr>CVEInput.severity := ''HIGH''\<rparr>)
   \<and> CVEInput.severity input_lower_severity = ''high''
   \<and> validate_CVEInput world_down input_bad_id = Inr input_bad_id
   \<and> CVEInput.cve_id input_bad_id = ''not-a-cve''
   \<and> validate_CVEInput_fastapi1 world_down input1_extreme = Inr input1_extreme
   \<and> CVEInput_fastapi1.severity input1_extreme = ''EXTREME''"
  by (simp add: validate_CVEInput_def validate_severity_def validate_CVEInput_fastapi1_def
      inputs library_of_worlds ascii_upper_examples lit_scores pattern_examples)

text \<open>
  C6, amended: validation of a record fails with \<open>ValidationError\<close> whenever the score is
  outside \<open>[0, 10]\<close> (both models); in \<open>fastapi(1).py\<close> also whenever the identifier does not
  match \<^verbatim>\<open>^CVE-\d{4}-\d{4,10}$\<close>; in \<open>fastapi(2).py\<close> also whenever the severity, upper-cased by
  \<open>str.upper\<close>, is not one of \<open>CRITICAL\<close>, \<open>HIGH\<close>, \<open>MEDIUM\<close>, \<open>LOW\<close>, \<open>NONE\<close>. This holds for
  every text, with the library's own \<open>str.upper\<close> and decimal digits.
\<close>

theorem validation_rejects:
  "(\<not> matches_cve_pattern (match_digit w) (CVEInput_fastapi1.cve_id r1)
      \<longrightarrow> validate_CVEInput_fastapi1 w r1 = Inl ValidationError)
   \<and> (\<not> (0 \<le> CVEInput_fastapi1.cvss_score r1 \<and> CVEInput_fastapi1.cvss_score r1 \<le> 10)
      \<longrightarrow> validate_CVEInput_fastapi1 w r1 = Inl ValidationError)
   \<and> (\<not> (0 \<le> CVEInput.cvss_score r2 \<and> CVEInput.cvss_score r2 \<le> 10)
      \<longrightarrow> validate_CVEInput w r2 = Inl ValidationError)
   \<and> (str_upper w (CVEInput.severity r2)
        \<notin> set [''CRITICAL'', ''HIGH'', ''MEDIUM'', ''LOW'', ''NONE'']
      \<longrightarrow> validate_CVEInput w r2 = Inl ValidationError)"
  by (auto simp add: validate_CVEInput_fastapi1_def validate_CVEInput_def validate_severity_def
      Let_def split: sum.splits if_splits)

theorem validation_rejects_witness:
  "\<not> matches_cve_pattern (match_digit world_down) (CVEInput_fastapi1.cve_id input1_bad_id)
   \<and> CVEInput_fastapi1.cve_id input1_bad_id = ''not-a-cve''
   \<and> validate_CVEInput_fastapi1 world_down input1_bad_id = Inl ValidationError
   \<and> \<not> (0 \<le> CVEInput_fastapi1.cvss_score input1_score_11
          \<and> CVEInput_fastapi1.cvss_score input1_score_11 \<le> 10)
   \<and> validate_CVEInput_fastapi1 world_down input1_score_11 = Inl ValidationError
   \<and> \<not> (0 \<le> CVEInput.cvss_score input_score_11 \<and> CVEInput.cvss_score input_score_11 \<le> 10)
   \<and> validate_CVEInput world_down input_score_11 = Inl ValidationError
   \<and> str_upper world_down (CVEInput.severity input_extreme)
        \<notin> set [''CRITICAL'', ''HIGH'', ''MEDIUM'', ''LOW'', ''NONE'']
   \<and> CVEInput.severity input_extreme = ''EXTREME''
   \<and> validate_CVEInput world_down input_extreme = Inl ValidationError"
proof -
  have h1: "\<not> matches_cve_pattern (match_digit world_down) (CVEInput_fastapi1.cve_id input1_bad_id)"
    "CVEInput_fastapi1.cve_id input1_bad_id = ''not-a-cve''"
    by (simp_all add: inputs library_of_worlds pattern_examples)
  have h2: "\<not> (0 \<le> CVEInput_fastapi1.cvss_score input1_score_11
          \<and> CVEInput_fastapi1.cvss_score input1_score_11 \<le> 10)"
    by (simp add: inputs lit_scores)
  have h3: "\<not> (0 \<le> CVEInput.cvss_score input_score_11 \<and> CVEInput.cvss_score input_score_11 \<le> 10)"
    by (simp add: inputs lit_scores)
  have h4: "str_upper world_down (CVEInput.severity input_extreme)
        \<notin> set [''CRITICAL'', ''HIGH'', ''MEDIUM'', ''LOW'', ''NONE'']"
    "CVEInput.severity input_extreme = ''EXTREME''"
    by (simp_all add: inputs library_of_worlds ascii_upper_examples)
  show ?thesis
    using h1 h2 h3 h4 validation_rejects [of world_down input1_bad_id input_score_11]
      validation_rejects [of world_down input1_score_11 input_extreme]
    by blast
qed

section \<open>The credential and the end-to-end behaviour\<close>

text \<open>
  C7 as stated: without a completion credential the system takes the fallback path and
  never fails at startup. \<open>api.py\<close> has a guard at import: without the credential it raises
  \<open>ValueError\<close>.
\<close>

theorem load_API_KEY_missing:
  "load_API_KEY None = Inl ValueError \<and> load_API_KEY (Some []) = Inl ValueError"
  by (simp add: load_API_KEY_def)

text \<open>
  C7, amended: in \<open>fastapi(2).py\<close>, when the credential variable is unset or empty, the module
  constant is the empty string, so nothing fails at import, and every analysis takes the
  deterministic fallback whatever the completion service would answer. \<open>analyze\<close> then
  returns a response whenever the two charts are drawn, and the only exception it can
  raise is one raised by the drawing of a chart. \<open>api.py\<close> is not covered: it requires the
  credential at import.
\<close>

theorem no_credential_fallback:
  assumes "credential w = None \<or> credential w = Some []"
  shows "OPENROUTER_API_KEY w = [] \<and> ai_analyze w cve = fallback_bundle w cve
    \<and> (epss_live w (CVEInput.cve_id cve) = Inr now
        \<and> cvss_image w (CVEInput.cvss_score cve) (CVEInput.cve_id cve) = Inr heat
        \<and> epss_image w now (epss_predict now) (CVEInput.cve_id cve) = Inr plot
        \<longrightarrow> (\<exists>r. analyze w cve = Inr r))
    \<and> (analyze w cve = Inl err
        \<longrightarrow> cvss_image w (CVEInput.cvss_score cve) (CVEInput.cve_id cve) = Inl err
            \<or> (\<exists>now'. epss_live w (CVEInput.cve_id cve) = Inr now'
                  \<and> epss_image w now' (epss_predict now') (CVEInput.cve_id cve) = Inl err))"
proof -
  have k: "OPENROUTER_API_KEY w = []" using assms by (auto simp add: OPENROUTER_API_KEY_def)
  then have a: "ai_analyze w cve = fallback_bundle w cve" by (rule ai_analyze_no_key)
  show ?thesis
    using k a analyze_fallback_renders [OF a] analyze_fallback_failure [OF a] by blast
qed

theorem no_credential_fallback_witness:
  "credential world_e2e = None
   \<and> credential world_empty_credential = Some []
   \<and> credential world_title_fails = None
   \<and> OPENROUTER_API_KEY world_e2e = [] \<and> OPENROUTER_API_KEY world_empty_credential = []
   \<and> ai_analyze world_e2e input_e2e = fallback_bundle world_e2e input_e2e
   \<and> ai_analyze world_empty_credential input_e2e = fallback_bundle world_empty_credential input_e2e
   \<and> epss_live world_e2e (CVEInput.cve_id input_e2e) = Inr (lit 2 2)
   \<and> cvss_image world_e2e (CVEInput.cvss_score input_e2e) (CVEInput.cve_id input_e2e)
       = Inr ''/static/images/cvss_0f8fad5bd9cb469fa16570867728950e.png''
   \<and> epss_image world_e2e (lit 2 2) (epss_predict (lit 2 2)) (CVEInput.cve_id input_e2e)
       = Inr ''/static/images/epss_7c9e6679742540de944be07fc1f90ae7.png''
   \<and> (\<exists>r. analyze world_e2e input_e2e = Inr r)
   \<and> analyze world_title_fails input_dollars = Inl ValueError
   \<and> (cvss_image world_title_fails (CVEInput.cvss_score input_dollars)
          (CVEInput.cve_id input_dollars) = Inl ValueError
        \<or> (\<exists>now'. epss_live world_title_fails (CVEInput.cve_id input_dollars) = Inr now'
              \<and> epss_image world_title_fails now' (epss_predict now')
                   (CVEInput.cve_id input_dollars) = Inl ValueError))"
proof -
  have h: "credential world_e2e = None" "credential world_empty_credential = Some []"
    "credential world_title_fails = None"
    by (simp_all add: worlds)
  have l: "epss_live world_e2e (CVEInput.cve_id input_e2e) = Inr (lit 2 2)"
    by (simp add: input_e2e_fields epss_live_e2e)
  note t1 = no_credential_fallback [of world_e2e input_e2e "lit 2 2"
      "''/static/images/cvss_0f8fad5bd9cb469fa16570867728950e.png''"
      "''/static/images/epss_7c9e6679742540de944be07fc1f90ae7.png''" ValueError]
  note t2 = no_credential_fallback [of world_empty_credential input_e2e "lit 2 2"
      "''/static/images/cvss_0f8fad5bd9cb469fa16570867728950e.png''"
      "''/static/images/epss_7c9e6679742540de944be07fc1f90ae7.png''" ValueError]
  note t3 = no_credential_fallback [of world_title_fails input_dollars "lit 2 2"
      "''/static/images/cvss_0f8fad5bd9cb469fa16570867728950e.png''"
      "''/static/images/epss_7c9e6679742540de944be07fc1f90ae7.png''" ValueError]
  show ?thesis
    using h l t1 t2 t3 charts_e2e analyze_chart_failure
    by simp
qed

text \<open>
  C8. The end-to-end scenario: the record of \<open>CVE-2023-4863\<close> with score \<open>9.8\<close> and severity
  \<open>CRITICAL\<close>, the completion service unavailable (no credential, or a credential and a
  service that cannot be reached), the score service reporting \<open>0.02\<close>. The endpoint of
  \<open>fastapi(2).py\<close> returns a response whose projection is \<open>0.023\<close> and whose fallback lists
  of products and fixes are not empty.
\<close>

theorem end_to_end_scenario:
  "post_analyze world_e2e input_e2e =
     Inr \<lparr>CVEAnalysisResponse.cve_id = ''CVE-2023-4863'', cvss_vector = None,
          severity = ''CRITICAL'', cvss_score = lit 980 2,
          simple_summary = ''libwebp heap overflow'', simple_description = ''...'',
          affected_products = [''Affected software components''],
          affected_assets = [''Servers'', ''Production systems'', ''Internet-facing hosts''],
          fixes_list = [''Apply vendor security patches'', ''Upgrade to the latest stable version'',
            ''Restrict network access'', ''Monitor logs for exploitation attempts''],
          epss_score = lit 2 2, epss_30d_prediction = lit 23 3,
          cvss_heatmap_url = ''/static/images/cvss_0f8fad5bd9cb469fa16570867728950e.png'',
          epss_plot_url = ''/static/images/epss_7c9e6679742540de944be07fc1f90ae7.png''\<rparr>
   \<and> post_analyze world_e2e_keyed input_e2e = post_analyze world_e2e input_e2e
   \<and> epss_predict (lit 2 2) = lit 23 3
   \<and> lit 23 3 = py_round (fmul (lit 2 2) (lit 115 2)) 5"
proof -
  have post: "post_analyze world_e2e input_e2e = Inr response_e2e"
    "post_analyze world_e2e_keyed input_e2e = Inr response_e2e"
    by (simp_all add: post_analyze_def validate_input_e2e bindE_def analyze_e2e)
  have r3: "lit 23 3 = py_round (fmul (lit 2 2) (lit 115 2)) 5"
    using epss_predict_e2e by (simp add: epss_predict_def)
  show ?thesis using post epss_predict_e2e r3 by (simp add: response_e2e_def)
qed

text \<open>
  C9. \<open>analyze\<close> returns no partial result: a record either fails validation or yields a
  fully assembled response, and no later step can fail. With a credential set and a
  completion service that answers with the text \<^verbatim>\<open>{}\<close>, the record of the end-to-end
  scenario passes validation, \<open>ai_analyze\<close> returns the empty object the text parses to,
  and the first subscript of \<open>analyze\<close> raises \<open>KeyError\<close>.
\<close>

theorem analyze_fails_after_validation:
  "validate_CVEInput world_wrong_shape input_e2e = Inr input_e2e
   \<and> OPENROUTER_API_KEY world_wrong_shape = ''key''
   \<and> ai_analyze world_wrong_shape input_e2e = JObj []
   \<and> analyze world_wrong_shape input_e2e = Inl KeyError
   \<and> post_analyze world_wrong_shape input_e2e = Inl KeyError"
proof -
  have k: "OPENROUTER_API_KEY world_wrong_shape = ''key''"
    by (simp add: OPENROUTER_API_KEY_def worlds)
  have "ai_analyze_try world_wrong_shape = Inr (JObj [])"
    by (simp add: ai_analyze_try_def completion_content_def py_json_loads_def worlds http_steps)
  then have ai: "ai_analyze world_wrong_shape input_e2e = JObj []"
    by (simp add: ai_analyze_def k)
  have a: "analyze world_wrong_shape input_e2e = Inl KeyError"
    unfolding analyze_def ai Let_def by (simp add: bindE_def epss_live_total)
  then have "post_analyze world_wrong_shape input_e2e = Inl KeyError"
    by (simp add: post_analyze_def validate_input_e2e bindE_def)
  with k ai a show ?thesis by (simp add: validate_input_e2e)
qed

end
